theory Spec2Isabelle
  imports Complex_Main "HOL-Library.Sublist"
begin

section \<open>Conventions of the embedding\<close>

text \<open>
  The governed retrieval pipeline of the repository (\<^verbatim>\<open>src/utils/index.ts\<close>,
  \<^verbatim>\<open>src/services/rag.ts\<close>, \<^verbatim>\<open>src/services/chat.ts\<close>, \<^verbatim>\<open>src/services/logging.ts\<close>)
  as HOL functions.

  \<^item> A TypeScript \<^verbatim>\<open>number\<close> that holds a score, a cost or a temperature is a \<^typ>\<open>real\<close>
    in the functions of the pipeline, which compare it: comparing two doubles is comparing
    the reals they stand for, and so are the two comparisons with a literal: a double is
    below \<^verbatim>\<open>0.5\<close> exactly when it is below \<open>1/2\<close>, and it is above \<^verbatim>\<open>0.3\<close> (the double next to
    \<open>3/10\<close>, just below it) exactly when it is above \<open>3/10\<close>. The arithmetic that
    produces a score, \<^verbatim>\<open>cosineSimilarity\<close>, is given twice: with exact arithmetic, the score
    that the retrieval functions are stated with, and in binary64, the arithmetic of the
    runtime with its rounding, its infinities and NaN, on which the properties of
    \<^verbatim>\<open>cosineSimilarity\<close> itself are settled. A \<^verbatim>\<open>number\<close> that holds a count, an index or a
    size is an \<^typ>\<open>int\<close>.
  \<^item> A string is a \<^typ>\<open>string\<close>; its characters are read as ASCII.
  \<^item> A thrown \<^verbatim>\<open>Error\<close> is a value: a function that can throw returns \<open>error + 'a\<close>,
    with \<open>Inl\<close> for the exception.
  \<^item> The database and the calls made to the embedding and completion provider are an explicit
    state, the record \<open>world\<close>; what the provider, the file system and a failing connection
    answer is the record \<open>env\<close>.
\<close>

datatype error = Error (err_message: string)

section \<open>Utilities (\<^verbatim>\<open>src/utils/index.ts\<close>)\<close>

subsection \<open>String primitives of the JavaScript runtime\<close>

text \<open>\<^verbatim>\<open>String.prototype.toLowerCase\<close>, on ASCII letters.\<close>

definition lower_char :: "char \<Rightarrow> char" where
  "lower_char c =
     (case map_of (zip ''ABCDEFGHIJKLMNOPQRSTUVWXYZ'' ''abcdefghijklmnopqrstuvwxyz'') c of
        None \<Rightarrow> c
      | Some l \<Rightarrow> l)"

definition toLowerCase :: "string \<Rightarrow> string" where
  "toLowerCase s = map lower_char s"

text \<open>\<^verbatim>\<open>s.includes(t)\<close>: \<open>t\<close> occurs in \<open>s\<close> as a contiguous substring.\<close>

fun str_includes :: "string \<Rightarrow> string \<Rightarrow> bool" where
  "str_includes [] t = (t = [])"
| "str_includes (c # s) t = (take (length t) (c # s) = t \<or> str_includes s t)"

text \<open>\<^verbatim>\<open>String.prototype.trim\<close>: white space is removed at both ends.\<close>

definition is_space :: "char \<Rightarrow> bool" where
  "is_space c = (c \<in> set [CHR '' '', CHR 0x09, CHR 0x0A, CHR 0x0B, CHR 0x0C, CHR 0x0D])"

definition trim :: "string \<Rightarrow> string" where
  "trim s = rev (dropWhile is_space (rev (dropWhile is_space s)))"

text \<open>
  \<^verbatim>\<open>s.slice(start, end)\<close>: a negative index counts from the end of the string, both
  indices are clamped to the string, and the result is empty when the end is not after the
  start.
\<close>

definition slice_index :: "nat \<Rightarrow> int \<Rightarrow> nat" where
  "slice_index len i = (if i < 0 then nat (max (int len + i) 0) else min (nat i) len)"

definition slice :: "'a list \<Rightarrow> int \<Rightarrow> int \<Rightarrow> 'a list" where
  "slice s start endIndex =
     (let from = slice_index (length s) start; to = slice_index (length s) endIndex
      in take (to - from) (drop from s))"

text \<open>
  \<^verbatim>\<open>s.lastIndexOf(c, fromIndex)\<close> for a one-character \<open>c\<close>: the largest index at most
  \<open>fromIndex\<close> (clamped to the string) that holds \<open>c\<close>, or \<open>-1\<close>.
\<close>

definition lastIndexOf :: "string \<Rightarrow> char \<Rightarrow> int \<Rightarrow> int" where
  "lastIndexOf s c fromIndex =
     (let k = min (max fromIndex 0) (int (length s) - 1)
      in case filter (\<lambda>i. s ! i = c) (rev [0 ..< nat (k + 1)]) of
           [] \<Rightarrow> - 1
         | i # _ \<Rightarrow> int i)"

text \<open>Decimal rendering of a number inside a template string.\<close>

fun string_of_nat :: "nat \<Rightarrow> string" where
  "string_of_nat n =
     (if n < 10 then [char_of (48 + n)]
      else string_of_nat (n div 10) @ [char_of (48 + n mod 10)])"

definition string_of_int :: "int \<Rightarrow> string" where
  "string_of_int i = (if i < 0 then CHR ''-'' # string_of_nat (nat (- i)) else string_of_nat (nat i))"

text \<open>\<^verbatim>\<open>Array.prototype.join\<close>.\<close>

fun join :: "string \<Rightarrow> string list \<Rightarrow> string" where
  "join sep [] = []"
| "join sep [x] = x"
| "join sep (x # y # ys) = x @ sep @ join sep (y # ys)"

subsection \<open>\<^verbatim>\<open>cosineSimilarity\<close>\<close>

text \<open>
  The loop of \<^verbatim>\<open>cosineSimilarity\<close> runs over the indices of \<open>a\<close>, which has the length of
  \<open>b\<close>; its three accumulators are \<open>dotProduct\<close>, \<open>normA\<close> and \<open>normB\<close>. This is the
  function with exact arithmetic: the dot product divided by the product of the magnitudes,
  the score a fragment has before any rounding. The retrieval functions are stated with it;
  what is proved of them holds whatever number the score of a fragment is.
\<close>

fun cosine_loop :: "real list \<Rightarrow> real list \<Rightarrow> real \<times> real \<times> real \<Rightarrow> real \<times> real \<times> real" where
  "cosine_loop (x # xs) (y # ys) (dotProduct, normA, normB) =
     cosine_loop xs ys (dotProduct + x * y, normA + x * x, normB + y * y)"
| "cosine_loop _ _ acc = acc"

definition cosineSimilarity :: "real list \<Rightarrow> real list \<Rightarrow> real" where
  "cosineSimilarity a b =
     (if length a \<noteq> length b then 0
      else case cosine_loop a b (0, 0, 0) of
        (dotProduct, normA, normB) \<Rightarrow>
          if normA = 0 \<or> normB = 0 then 0
          else dotProduct / (sqrt normA * sqrt normB))"

subsection \<open>\<^verbatim>\<open>cosineSimilarity\<close> in the arithmetic of the runtime\<close>

text \<open>
  A JavaScript number is an IEEE 754 binary64 value: a finite number, one of the two
  infinities, or NaN. The two zeros are one value here: \<^verbatim>\<open>normA === 0\<close> holds of both, and of
  the operations of \<^verbatim>\<open>cosineSimilarity\<close> only a quotient by zero tells them apart, where the
  one divisor is a product of square roots, never the negative zero. The vectors are lists
  of such values; \<^verbatim>\<open>Math.sqrt\<close> is the correctly rounded square root.
\<close>

datatype binary64 = Finite real | PosInf | NegInf | NaN

definition inf_of :: "bool \<Rightarrow> binary64" where
  "inf_of positive = (if positive then PosInf else NegInf)"

definition pow2 :: "int \<Rightarrow> real" where
  "pow2 k = (if 0 \<le> k then 2 ^ nat k else 1 / 2 ^ nat (- k))"

text \<open>The nearest integer, the even one of two that are equally near.\<close>

definition round_half_even :: "real \<Rightarrow> int" where
  "round_half_even r =
     (let f = \<lfloor>r\<rfloor> in
      if r - of_int f < 1 / 2 then f
      else if 1 / 2 < r - of_int f then f + 1
      else if even f then f else f + 1)"

text \<open>
  Every arithmetic operation returns the exact result rounded to the nearest binary64 value,
  ties to the even significand. A value \<open>x\<close> with \<open>2\<^sup>e \<le> |x| < 2\<^sup>e\<^sup>+\<^sup>1\<close> is rounded to a multiple of
  \<open>2\<^sup>e\<^sup>-\<^sup>5\<^sup>2\<close> (53 significant bits), and to a multiple of \<open>2\<^sup>-\<^sup>1\<^sup>0\<^sup>7\<^sup>4\<close> where \<open>e < -1022\<close> (the
  subnormal numbers, down to zero); a result that rounds to \<open>2\<^sup>1\<^sup>0\<^sup>2\<^sup>4\<close> or beyond is the
  infinity of its sign.
\<close>

definition round64 :: "real \<Rightarrow> binary64" where
  "round64 x =
     (if x = 0 then Finite 0
      else
        let ulp = pow2 (max \<lfloor>log 2 \<bar>x\<bar>\<rfloor> (- 1022) - 52);
            y = of_int (round_half_even (x / ulp)) * ulp
        in if 2 ^ 1024 \<le> \<bar>y\<bar> then inf_of (0 < x) else Finite y)"

fun add64 :: "binary64 \<Rightarrow> binary64 \<Rightarrow> binary64" where
  "add64 NaN _ = NaN"
| "add64 _ NaN = NaN"
| "add64 (Finite x) (Finite y) = round64 (x + y)"
| "add64 PosInf NegInf = NaN"
| "add64 NegInf PosInf = NaN"
| "add64 PosInf _ = PosInf"
| "add64 _ PosInf = PosInf"
| "add64 NegInf _ = NegInf"
| "add64 _ NegInf = NegInf"

fun mul64 :: "binary64 \<Rightarrow> binary64 \<Rightarrow> binary64" where
  "mul64 NaN _ = NaN"
| "mul64 _ NaN = NaN"
| "mul64 (Finite x) (Finite y) = round64 (x * y)"
| "mul64 (Finite x) PosInf = (if x = 0 then NaN else inf_of (0 < x))"
| "mul64 (Finite x) NegInf = (if x = 0 then NaN else inf_of (x < 0))"
| "mul64 PosInf (Finite y) = (if y = 0 then NaN else inf_of (0 < y))"
| "mul64 NegInf (Finite y) = (if y = 0 then NaN else inf_of (y < 0))"
| "mul64 PosInf PosInf = PosInf"
| "mul64 PosInf NegInf = NegInf"
| "mul64 NegInf PosInf = NegInf"
| "mul64 NegInf NegInf = PosInf"

fun div64 :: "binary64 \<Rightarrow> binary64 \<Rightarrow> binary64" where
  "div64 NaN _ = NaN"
| "div64 _ NaN = NaN"
| "div64 (Finite x) (Finite y) =
     (if y = 0 then (if x = 0 then NaN else inf_of (0 < x)) else round64 (x / y))"
| "div64 (Finite x) _ = Finite 0"
| "div64 PosInf (Finite y) = inf_of (0 \<le> y)"
| "div64 NegInf (Finite y) = inf_of (y < 0)"
| "div64 _ _ = NaN"

fun sqrt64 :: "binary64 \<Rightarrow> binary64" where
  "sqrt64 (Finite x) = (if x < 0 then NaN else round64 (sqrt x))"
| "sqrt64 PosInf = PosInf"
| "sqrt64 _ = NaN"

fun cosine_loop_binary64 ::
  "binary64 list \<Rightarrow> binary64 list \<Rightarrow> binary64 \<times> binary64 \<times> binary64
     \<Rightarrow> binary64 \<times> binary64 \<times> binary64" where
  "cosine_loop_binary64 (x # xs) (y # ys) (dotProduct, normA, normB) =
     cosine_loop_binary64 xs ys
       (add64 dotProduct (mul64 x y), add64 normA (mul64 x x), add64 normB (mul64 y y))"
| "cosine_loop_binary64 _ _ acc = acc"

definition cosineSimilarity_binary64 :: "binary64 list \<Rightarrow> binary64 list \<Rightarrow> binary64" where
  "cosineSimilarity_binary64 a b =
     (if length a \<noteq> length b then Finite 0
      else case cosine_loop_binary64 a b (Finite 0, Finite 0, Finite 0) of
        (dotProduct, normA, normB) \<Rightarrow>
          if normA = Finite 0 \<or> normB = Finite 0 then Finite 0
          else div64 dotProduct (mul64 (sqrt64 normA) (sqrt64 normB)))"

subsection \<open>\<^verbatim>\<open>chunkText\<close>\<close>

text \<open>
  The \<^verbatim>\<open>while\<close> loop of \<^verbatim>\<open>chunkText\<close>; \<open>start\<close> and \<open>chunks\<close> are its two variables. The
  loop need not end, so the function is partial: \<open>None\<close> is a run that never returns.
  The sizes are integers (the caller reads them with \<^verbatim>\<open>parseInt\<close>), for which the test
  \<^verbatim>\<open>breakPoint > start + chunkSize / 2\<close> is \<open>2 * breakPoint > 2 * start + chunkSize\<close>.
\<close>

definition window_end :: "string \<Rightarrow> int \<Rightarrow> int \<Rightarrow> int" where
  "window_end text chunkSize start =
     (let endIndex = start + chunkSize in
      if endIndex < int (length text) then
        let lastPeriod = lastIndexOf text CHR ''.'' endIndex;
            lastNewline = lastIndexOf text CHR 0x0A endIndex;
            breakPoint = max lastPeriod lastNewline
        in if 2 * breakPoint > 2 * start + chunkSize then breakPoint + 1 else endIndex
      else endIndex)"

definition next_start :: "int \<Rightarrow> int \<Rightarrow> int" where
  "next_start endIndex overlap =
     (let start = endIndex - overlap in if start < 0 then 0 else start)"

partial_function (option) chunk_loop ::
  "string \<Rightarrow> int \<Rightarrow> int \<Rightarrow> int \<Rightarrow> string list \<Rightarrow> string list option" where
  "chunk_loop text chunkSize overlap start chunks =
     (if start < int (length text) then
        chunk_loop text chunkSize overlap
          (next_start (window_end text chunkSize start) overlap)
          (chunks @ [trim (slice text start (window_end text chunkSize start))])
      else Some chunks)"

declare chunk_loop.simps [code]

definition chunkText :: "string \<Rightarrow> int \<Rightarrow> int \<Rightarrow> string list option" where
  "chunkText text chunkSize overlap =
     map_option (filter (\<lambda>chunk. length chunk > 0)) (chunk_loop text chunkSize overlap 0 [])"

text \<open>
  The same loop, recording the window \<open>(start, endIndex)\<close> of every iteration in place of the
  trimmed text it cuts: the windows are what the chunks are compared with.
\<close>

partial_function (option) chunk_windows ::
  "string \<Rightarrow> int \<Rightarrow> int \<Rightarrow> int \<Rightarrow> (int \<times> int) list \<Rightarrow> (int \<times> int) list option" where
  "chunk_windows text chunkSize overlap start ws =
     (if start < int (length text) then
        chunk_windows text chunkSize overlap
          (next_start (window_end text chunkSize start) overlap)
          (ws @ [(start, window_end text chunkSize start)])
      else Some ws)"

declare chunk_windows.simps [code]

text \<open>
  Reassembling a text from its fragments: the first fragment, then every later fragment
  without the \<open>overlap\<close> characters it shares with its predecessor.
\<close>

fun reassemble :: "int \<Rightarrow> string list \<Rightarrow> string" where
  "reassemble overlap [] = []"
| "reassemble overlap (c # cs) = c @ concat (map (drop (nat overlap)) cs)"

subsection \<open>\<^verbatim>\<open>truncateText\<close>\<close>

definition truncateText :: "string \<Rightarrow> int \<Rightarrow> string" where
  "truncateText text maxLength =
     (if int (length text) \<le> maxLength then text else slice text 0 (maxLength - 3) @ ''...'')"

section \<open>Data model (\<^verbatim>\<open>src/types/index.ts\<close>, \<^verbatim>\<open>src/db/migrate.ts\<close>)\<close>

datatype AgentMode = INTERNAL | HYBRID | FREE

datatype DocumentStatus = pending | processing | completed | failed

text \<open>The columns of an agent that the pipeline reads.\<close>

record Agent =
  agent_id :: string
  agent_tenant_id :: string
  system_prompt :: string
  model :: string
  temperature :: real
  mode :: AgentMode
  allowed_topics :: "string list"
  forbidden_topics :: "string list"
  cost_limit_daily :: real
  cost_used_today :: real
  kill_switch :: bool
  enable_rag :: bool
  is_active :: bool

record RAGEvidence =
  document_id :: string
  document_name :: string
  document_version :: int
  chunk_text :: string
  chunk_index :: int
  similarity_score :: real

text \<open>An optional field of \<^verbatim>\<open>ChatResponse\<close> that is left out is \<open>None\<close>.\<close>

record ChatResponse =
  response :: string
  conversationId :: string
  tokensUsed :: int
  latencyMs :: int
  evidence :: "RAGEvidence list option"
  blocked :: "bool option"
  blockReason :: "string option"

record Collection =
  collection_id :: string
  collection_tenant_id :: string
  is_global :: bool

record Document =
  doc_id :: string
  doc_collection_id :: string
  doc_name :: string
  file_path :: string
  mime_type :: string
  status :: DocumentStatus
  version :: int
  error_message :: "string option"

record Embedding =
  emb_document_id :: string
  emb_chunk_index :: int
  emb_chunk_text :: string
  emb_embedding :: "real list"

record ChatMessage =
  msg_tenant_id :: string
  msg_user_id :: string
  msg_agent_id :: string
  msg_conversation_id :: string
  role :: string
  content :: string
  tokens_used :: int
  latency_ms :: int
  msg_evidence :: "RAGEvidence list option"

datatype Decision = Allowed | Blocked | Modified

record DecisionLog =
  log_tenant_id :: string
  log_user_id :: string
  log_agent_id :: string
  log_action :: string
  log_decision :: Decision
  log_reason :: string
  input_preview :: string
  output_preview :: "string option"
  metadata :: "(string \<times> string) list"

record LLMProvider =
  provider_tenant_id :: string
  is_default :: bool
  provider_is_active :: bool
  api_key_encrypted :: string
  base_url :: string

subsection \<open>The provider and the state\<close>

record LLMClient =
  apiKey :: string
  baseURL :: "string option"

record CompletionRequest =
  req_model :: string
  req_messages :: "(string \<times> string) list"
  req_temperature :: real
  req_max_tokens :: int

text \<open>
  What \<^verbatim>\<open>openai.chat.completions.create\<close> answers: \<^verbatim>\<open>choices[0]?.message?.content\<close> and
  \<^verbatim>\<open>usage?.total_tokens\<close>, each possibly missing.
\<close>

record Completion =
  completion_content :: "string option"
  total_tokens :: "int option"

text \<open>A call made to the embedding and completion provider.\<close>

datatype provider_call =
  EmbeddingCall string
| CompletionCall LLMClient CompletionRequest

text \<open>
  The tables of the database, each in row order, and the calls made to the provider so far.
  A pair of \<open>agent_collections\<close> is \<open>(agent_id, collection_id)\<close>. Rows of \<open>chat_messages\<close>
  are in the order of their \<open>created_at\<close>.
\<close>

record world =
  agents :: "Agent list"
  collections :: "Collection list"
  agent_collections :: "(string \<times> string) list"
  documents :: "Document list"
  embeddings :: "Embedding list"
  chat_messages :: "ChatMessage list"
  decision_logs :: "DecisionLog list"
  llm_providers :: "LLMProvider list"
  provider_calls :: "provider_call list"

text \<open>The SQL statements of the pipeline, by the place that issues them; \<open>Connect\<close> is
  \<^verbatim>\<open>pool.connect()\<close>.\<close>

datatype db_query =
  Connect | SelectDocument | SetProcessing | DeleteEmbeddings | InsertEmbedding int | SetCompleted
| SetFailed | SelectCollections | SelectEmbeddings | CheckPgvector | SearchPgvector
| SelectAgent | SelectHistory | SelectProvider | UpdateCost | InsertUserMessage
| InsertAssistantMessage | InsertDecisionLog

text \<open>A row of the similarity search of \<^verbatim>\<open>retrieveContextWithPgVector\<close>.\<close>

record PgRow =
  pg_document_id :: string
  pg_chunk_index :: int
  pg_chunk_text :: string
  pg_document_name :: string
  pg_document_version :: int
  pg_similarity :: real

text \<open>
  Everything the pipeline asks of its surroundings. \<open>query_error q\<close> is the error the
  statement \<open>q\<close> is rejected with, if it is rejected. \<open>similarity_search\<close> is the answer of
  the database to the \<^verbatim>\<open>ORDER BY ... LIMIT\<close> statement of the accelerated path, given the
  query vector, the collection ids and the limit, should the database accept the statement. \<open>decrypt\<close> is \<^verbatim>\<open>decrypt\<close> of
  \<^verbatim>\<open>src/utils/index.ts\<close> (AES-256-GCM), \<open>elapsed\<close> is \<^verbatim>\<open>Date.now() - startTime\<close>, and
  \<open>CHUNK_SIZE\<close> and \<open>CHUNK_OVERLAP\<close> are the two settings as \<^verbatim>\<open>parseInt\<close> reads them.
\<close>

record env =
  embeddings_create :: "string \<Rightarrow> error + real list"
  completions_create :: "LLMClient \<Rightarrow> CompletionRequest \<Rightarrow> error + Completion"
  query_error :: "db_query \<Rightarrow> error option"
  pgvector_installed :: bool
  similarity_search :: "world \<Rightarrow> real list \<Rightarrow> string list \<Rightarrow> int \<Rightarrow> PgRow list"
  decrypt :: "string \<Rightarrow> error + string"
  uuidv4 :: string
  elapsed :: int
  OPENAI_API_KEY :: string
  CHUNK_SIZE :: int
  CHUNK_OVERLAP :: int
  extname :: "string \<Rightarrow> string"
  readFileSync :: "string \<Rightarrow> error + string"
  mammoth_extractRawText :: "string \<Rightarrow> error + string"
  pdfParse :: "string \<Rightarrow> error + string"

section \<open>Ingestion and retrieval (\<^verbatim>\<open>src/services/rag.ts\<close>)\<close>

subsection \<open>\<^verbatim>\<open>extractText\<close> and \<^verbatim>\<open>generateEmbedding\<close>\<close>

definition extractText :: "env \<Rightarrow> string \<Rightarrow> string \<Rightarrow> error + string" where
  "extractText env filePath mimeType =
     (let ext = toLowerCase (extname env filePath) in
      case
        (if ext = ''.txt'' \<or> ext = ''.md'' \<or> mimeType = ''text/plain''
            \<or> mimeType = ''text/markdown''
         then readFileSync env filePath
         else if ext = ''.docx'' \<or> mimeType =
            ''application/vnd.openxmlformats-officedocument.wordprocessingml.document''
         then mammoth_extractRawText env filePath
         else if ext = ''.pdf'' \<or> mimeType = ''application/pdf''
         then (case readFileSync env filePath of
                 Inl e \<Rightarrow> Inl e
               | Inr dataBuffer \<Rightarrow> pdfParse env dataBuffer)
         else readFileSync env filePath)
      of
        Inl e \<Rightarrow> Inl (Error (''Failed to extract text from document: '' @ err_message e))
      | Inr text \<Rightarrow> Inr text)"

text \<open>The call is recorded whether the provider answers or fails.\<close>

definition generateEmbedding :: "env \<Rightarrow> world \<Rightarrow> string \<Rightarrow> world \<times> (error + real list)" where
  "generateEmbedding env w text =
     (let input = slice text 0 8000;
          w' = w\<lparr>provider_calls := provider_calls w @ [EmbeddingCall input]\<rparr>
      in case embeddings_create env input of
           Inl e \<Rightarrow> (w', Inl (Error (''Failed to generate embedding: '' @ err_message e)))
         | Inr v \<Rightarrow> (w', Inr v))"

subsection \<open>\<^verbatim>\<open>processDocument\<close>\<close>

definition set_status :: "world \<Rightarrow> string \<Rightarrow> DocumentStatus \<Rightarrow> world" where
  "set_status w documentId st =
     w\<lparr>documents := map (\<lambda>d. if doc_id d = documentId then d\<lparr>status := st\<rparr> else d) (documents w)\<rparr>"

definition set_failed :: "world \<Rightarrow> string \<Rightarrow> string \<Rightarrow> world" where
  "set_failed w documentId msg =
     w\<lparr>documents :=
         map (\<lambda>d. if doc_id d = documentId then d\<lparr>status := failed, error_message := Some msg\<rparr> else d)
           (documents w)\<rparr>"

definition delete_embeddings :: "world \<Rightarrow> string \<Rightarrow> world" where
  "delete_embeddings w documentId =
     w\<lparr>embeddings := filter (\<lambda>e. emb_document_id e \<noteq> documentId) (embeddings w)\<rparr>"

text \<open>
  The \<^verbatim>\<open>for\<close> loop over the chunks, from index \<open>i\<close>: a chunk whose embedding or whose
  insertion fails is skipped.
\<close>

fun embed_chunks :: "env \<Rightarrow> world \<Rightarrow> string \<Rightarrow> int \<Rightarrow> string list \<Rightarrow> world" where
  "embed_chunks env w documentId i [] = w"
| "embed_chunks env w documentId i (chunk # chunks) =
     (case generateEmbedding env w chunk of
        (w', Inl e) \<Rightarrow> embed_chunks env w' documentId (i + 1) chunks
      | (w', Inr v) \<Rightarrow>
          (case query_error env (InsertEmbedding i) of
             Some e \<Rightarrow> embed_chunks env w' documentId (i + 1) chunks
           | None \<Rightarrow>
               embed_chunks env
                 (w'\<lparr>embeddings := embeddings w' @
                    [\<lparr>emb_document_id = documentId, emb_chunk_index = i, emb_chunk_text = chunk,
                      emb_embedding = v\<rparr>]\<rparr>)
                 documentId (i + 1) chunks))"

text \<open>
  The \<^verbatim>\<open>try\<close> block of \<^verbatim>\<open>processDocument\<close>. The state is returned with the error, since
  what was written before a \<^verbatim>\<open>throw\<close> stays written. \<open>None\<close>: \<^verbatim>\<open>chunkText\<close> never returns.
\<close>

definition process_steps :: "env \<Rightarrow> world \<Rightarrow> string \<Rightarrow> (world \<times> (error + unit)) option" where
  "process_steps env w documentId =
     (case query_error env SelectDocument of
        Some e \<Rightarrow> Some (w, Inl e)
      | None \<Rightarrow>
     (case filter (\<lambda>d. doc_id d = documentId) (documents w) of
        [] \<Rightarrow> Some (w, Inl (Error ''Document not found''))
      | doc # _ \<Rightarrow>
     (case query_error env SetProcessing of
        Some e \<Rightarrow> Some (w, Inl e)
      | None \<Rightarrow>
     (let w1 = set_status w documentId processing in
      case extractText env (file_path doc) (mime_type doc) of
        Inl e \<Rightarrow> Some (w1, Inl e)
      | Inr text \<Rightarrow>
     (if text = [] \<or> length (trim text) = 0
      then Some (w1, Inl (Error ''No text content extracted from document''))
      else
     (case chunkText text (CHUNK_SIZE env) (CHUNK_OVERLAP env) of
        None \<Rightarrow> None
      | Some chunks \<Rightarrow>
     (case query_error env DeleteEmbeddings of
        Some e \<Rightarrow> Some (w1, Inl e)
      | None \<Rightarrow>
     (let w2 = embed_chunks env (delete_embeddings w1 documentId) documentId 0 chunks in
      case query_error env SetCompleted of
        Some e \<Rightarrow> Some (w2, Inl e)
      | None \<Rightarrow> Some (set_status w2 documentId completed, Inr ())))))))))"

text \<open>
  \<^verbatim>\<open>processDocument\<close>: \<^verbatim>\<open>pool.connect()\<close> comes before the \<^verbatim>\<open>try\<close>, so its failure is
  thrown as it is. The \<^verbatim>\<open>catch\<close> block sets the status to \<^verbatim>\<open>failed\<close> and throws the error
  again; when that update is rejected, its own error is the one thrown.
\<close>

definition processDocument :: "env \<Rightarrow> world \<Rightarrow> string \<Rightarrow> (world \<times> (error + unit)) option" where
  "processDocument env w documentId =
     (case query_error env Connect of
        Some e \<Rightarrow> Some (w, Inl e)
      | None \<Rightarrow>
     (case process_steps env w documentId of
        None \<Rightarrow> None
      | Some (w', Inr u) \<Rightarrow> Some (w', Inr u)
      | Some (w', Inl e) \<Rightarrow>
          (case query_error env SetFailed of
             Some e' \<Rightarrow> Some (w', Inl e')
           | None \<Rightarrow> Some (set_failed w' documentId (err_message e), Inl e))))"

subsection \<open>\<^verbatim>\<open>retrieveContext\<close>\<close>

text \<open>An element of \<^verbatim>\<open>scoredChunks\<close>; \<open>chunkBody\<close> is its field \<^verbatim>\<open>chunkText\<close>.\<close>

record ScoredChunk =
  documentId :: string
  documentName :: string
  documentVersion :: int
  chunkIndex :: int
  chunkBody :: string
  similarity :: real

text \<open>
  \<^verbatim>\<open>SELECT DISTINCT c.id FROM collections c LEFT JOIN agent_collections ac ... WHERE
  c.tenant_id = $1 AND (ac.agent_id = $2 OR c.is_global = true)\<close>.
\<close>

definition linked_collections :: "world \<Rightarrow> string \<Rightarrow> string \<Rightarrow> string list" where
  "linked_collections w agentId tenantId =
     remdups (map collection_id
       (filter (\<lambda>c. collection_tenant_id c = tenantId
                  \<and> ((agentId, collection_id c) \<in> set (agent_collections w) \<or> is_global c))
          (collections w)))"

text \<open>
  \<^verbatim>\<open>SELECT e.*, d.name, d.version FROM embeddings e JOIN documents d ON e.document_id = d.id
  WHERE d.collection_id = ANY($1) AND d.status = 'completed'\<close>, in the row order of the
  \<open>embeddings\<close> table.
\<close>

definition candidate_rows :: "world \<Rightarrow> string list \<Rightarrow> (Embedding \<times> Document) list" where
  "candidate_rows w collectionIds =
     concat (map (\<lambda>e. map (\<lambda>d. (e, d))
         (filter (\<lambda>d. emb_document_id e = doc_id d \<and> doc_collection_id d \<in> set collectionIds
                    \<and> status d = completed) (documents w)))
       (embeddings w))"

definition score_row :: "real list \<Rightarrow> Embedding \<times> Document \<Rightarrow> ScoredChunk" where
  "score_row queryEmbedding row =
     (case row of (e, d) \<Rightarrow>
        \<lparr>documentId = emb_document_id e, documentName = doc_name d,
         documentVersion = version d, chunkIndex = emb_chunk_index e,
         chunkBody = emb_chunk_text e,
         similarity = cosineSimilarity queryEmbedding (emb_embedding e)\<rparr>)"

definition source_block :: "string \<Rightarrow> int \<Rightarrow> string \<Rightarrow> string" where
  "source_block name ver body =
     ''[Source: '' @ name @ '' v'' @ string_of_int ver @ '']'' @ [CHR 0x0A] @ body"

definition context_separator :: string where
  "context_separator = [CHR 0x0A, CHR 0x0A] @ ''---'' @ [CHR 0x0A, CHR 0x0A]"

definition evidence_of :: "ScoredChunk \<Rightarrow> RAGEvidence" where
  "evidence_of c =
     \<lparr>document_id = documentId c, document_name = documentName c,
      document_version = documentVersion c, chunk_text = chunkBody c,
      chunk_index = chunkIndex c, similarity_score = similarity c\<rparr>"

text \<open>
  \<^verbatim>\<open>scoredChunks.sort((a, b) => b.similarity - a.similarity)\<close> is a stable sort, descending
  by similarity: \<open>sort_key\<close> on the negated score. Every failure inside \<^verbatim>\<open>retrieveContext\<close>
  is caught and answered with the empty context.
\<close>

definition retrieveContext ::
  "env \<Rightarrow> world \<Rightarrow> string \<Rightarrow> string \<Rightarrow> string \<Rightarrow> int \<Rightarrow> world \<times> (string \<times> RAGEvidence list)" where
  "retrieveContext env w query agentId tenantId topK =
     (case generateEmbedding env w query of
        (w', Inl e) \<Rightarrow> (w', ([], []))
      | (w', Inr queryEmbedding) \<Rightarrow>
     (case query_error env SelectCollections of
        Some e \<Rightarrow> (w', ([], []))
      | None \<Rightarrow>
     (let collectionIds = linked_collections w' agentId tenantId in
      if length collectionIds = 0 then (w', ([], []))
      else
     (case query_error env SelectEmbeddings of
        Some e \<Rightarrow> (w', ([], []))
      | None \<Rightarrow>
     (let rows = candidate_rows w' collectionIds in
      if length rows = 0 then (w', ([], []))
      else
        let scoredChunks = map (score_row queryEmbedding) rows;
            sortedChunks = sort_key (\<lambda>c. - similarity c) scoredChunks;
            topChunks = slice sortedChunks 0 topK;
            relevantChunks = filter (\<lambda>c. similarity c > 0.3) topChunks
        in if length relevantChunks = 0 then (w', ([], []))
           else
             (w',
              (join context_separator
                 (map (\<lambda>c. source_block (documentName c) (documentVersion c) (chunkBody c))
                    relevantChunks),
               map evidence_of relevantChunks)))))))"

subsection \<open>\<^verbatim>\<open>retrieveContextWithPgVector\<close>\<close>



subsection \<open>The schema of the fragment store\<close>

text \<open>
  \<^verbatim>\<open>src/db/migrate.ts\<close> creates the table of fragments with the column
  \<^verbatim>\<open>embedding JSONB NOT NULL\<close>, and \<^verbatim>\<open>processDocument\<close> stores \<^verbatim>\<open>JSON.stringify(embedding)\<close>
  there. The statement of the accelerated path reads \<^verbatim>\<open>e.embedding::vector\<close>: a cast from
  \<^verbatim>\<open>jsonb\<close> to \<^verbatim>\<open>vector\<close>, which the database does not have. On this schema the database
  rejects the statement every time it is issued, which is the case
  \<open>query_error env SearchPgvector \<noteq> None\<close>.
\<close>

section \<open>Decision log (\<^verbatim>\<open>src/services/logging.ts\<close>)\<close>

text \<open>
  \<^verbatim>\<open>logDecision\<close> never throws: a rejected insertion is caught and nothing is written.
  \<^verbatim>\<open>outputPreview || null\<close> stores an empty preview as none.
\<close>

definition logDecision ::
  "env \<Rightarrow> world \<Rightarrow> string \<Rightarrow> string \<Rightarrow> string \<Rightarrow> string \<Rightarrow> Decision \<Rightarrow> string \<Rightarrow> string
     \<Rightarrow> string option \<Rightarrow> (string \<times> string) list \<Rightarrow> world" where
  "logDecision env w tenantId userId agentId act dec why inputPreview outputPreview meta =
     (case query_error env InsertDecisionLog of
        Some e \<Rightarrow> w
      | None \<Rightarrow>
          w\<lparr>decision_logs := decision_logs w @
            [\<lparr>log_tenant_id = tenantId, log_user_id = userId, log_agent_id = agentId,
              log_action = act, log_decision = dec, log_reason = why,
              input_preview = inputPreview,
              output_preview = (case outputPreview of
                                  None \<Rightarrow> None
                                | Some out \<Rightarrow> if out = [] then None else Some out),
              metadata = meta\<rparr>]\<rparr>)"

section \<open>Chat governance (\<^verbatim>\<open>src/services/chat.ts\<close>)\<close>

record CheckResult =
  allowed :: bool
  reason :: "string option"

subsection \<open>\<^verbatim>\<open>checkContract\<close>\<close>

text \<open>The \<^verbatim>\<open>for ... of\<close> loop over the forbidden topics; \<open>None\<close> when it runs to its end.\<close>

fun forbidden_loop :: "string \<Rightarrow> string list \<Rightarrow> CheckResult option" where
  "forbidden_loop messageLower [] = None"
| "forbidden_loop messageLower (topic # topics) =
     (if str_includes messageLower (toLowerCase topic)
      then Some \<lparr>allowed = False,
                 reason = Some (''Message contains forbidden topic: '' @ [CHR 0x22] @ topic
                                  @ [CHR 0x22])\<rparr>
      else forbidden_loop messageLower topics)"

definition checkContract :: "string \<Rightarrow> Agent \<Rightarrow> CheckResult" where
  "checkContract msg agent =
     (let messageLower = toLowerCase msg in
      case forbidden_loop messageLower (forbidden_topics agent) of
        Some r \<Rightarrow> r
      | None \<Rightarrow>
          if length (allowed_topics agent) > 0
             \<and> \<not> list_ex (\<lambda>topic. str_includes messageLower (toLowerCase topic))
                   (allowed_topics agent)
          then \<lparr>allowed = False, reason = Some ''Message does not match any allowed topics''\<rparr>
          else \<lparr>allowed = True, reason = None\<rparr>)"

subsection \<open>\<^verbatim>\<open>checkModeRequirements\<close>\<close>

text \<open>\<^verbatim>\<open>Math.max(...xs)\<close>; \<open>None\<close> is the \<^verbatim>\<open>-Infinity\<close> of no argument.\<close>

fun Math_max :: "real list \<Rightarrow> real option" where
  "Math_max [] = None"
| "Math_max (x # xs) = Some (fold max xs x)"

definition checkModeRequirements :: "AgentMode \<Rightarrow> RAGEvidence list \<Rightarrow> CheckResult" where
  "checkModeRequirements m evidenceList =
     (if m = INTERNAL then
        if length evidenceList = 0
        then \<lparr>allowed = False,
              reason = Some ''INTERNAL mode requires document evidence. No relevant documents found.''\<rparr>
        else
          if (case Math_max (map similarity_score evidenceList) of
                None \<Rightarrow> True
              | Some maxSimilarity \<Rightarrow> maxSimilarity < 0.5)
          then \<lparr>allowed = False,
                reason = Some ''INTERNAL mode requires high-confidence evidence. Available evidence has low similarity scores.''\<rparr>
          else \<lparr>allowed = True, reason = None\<rparr>
      else \<lparr>allowed = True, reason = None\<rparr>)"

subsection \<open>\<^verbatim>\<open>getLLMClient\<close>\<close>

definition getLLMClient :: "env \<Rightarrow> world \<Rightarrow> string \<Rightarrow> error + LLMClient" where
  "getLLMClient env w tenantId =
     (case query_error env SelectProvider of
        Some e \<Rightarrow> Inl e
      | None \<Rightarrow>
          (case filter (\<lambda>p. provider_tenant_id p = tenantId \<and> is_default p \<and> provider_is_active p)
                  (llm_providers w) of
             provider # _ \<Rightarrow>
               (case decrypt env (api_key_encrypted provider) of
                  Inl e \<Rightarrow> Inl e
                | Inr k \<Rightarrow>
                    Inr \<lparr>apiKey = k,
                         baseURL = (if base_url provider = [] then None
                                    else Some (base_url provider))\<rparr>)
           | [] \<Rightarrow> Inr \<lparr>apiKey = OPENAI_API_KEY env, baseURL = None\<rparr>))"

subsection \<open>\<^verbatim>\<open>chat\<close>\<close>

text \<open>\<^verbatim>\<open>contractCheck.reason!\<close>: a blocking result always carries its reason.\<close>

definition reason_text :: "CheckResult \<Rightarrow> string" where
  "reason_text r = (case reason r of None \<Rightarrow> [] | Some t \<Rightarrow> t)"

text \<open>\<^verbatim>\<open>conversationId || uuidv4()\<close>.\<close>

definition conversation_or_new :: "env \<Rightarrow> string option \<Rightarrow> string" where
  "conversation_or_new env conversation =
     (case conversation of
        None \<Rightarrow> uuidv4 env
      | Some c \<Rightarrow> if c = [] then uuidv4 env else c)"

definition build_system_prompt :: "Agent \<Rightarrow> string \<Rightarrow> string" where
  "build_system_prompt agent ctx =
     (if system_prompt agent = [] then ''You are a helpful AI assistant.'' else system_prompt agent)
     @ (if ctx \<noteq> []
        then [CHR 0x0A, CHR 0x0A] @ ''## Knowledge Base Context'' @ [CHR 0x0A]
          @ ''Use the following information to answer the user's question. Always cite your sources by mentioning the document name.''
          @ [CHR 0x0A, CHR 0x0A] @ ctx
        else [])
     @ (if mode agent = INTERNAL
        then [CHR 0x0A, CHR 0x0A]
          @ ''IMPORTANT: You must ONLY answer based on the provided context. If the context does not contain relevant information, say so clearly.''
        else if mode agent = HYBRID
        then [CHR 0x0A, CHR 0x0A]
          @ ''Prefer using information from the provided context when available, but you may supplement with your general knowledge when appropriate.''
        else [])"

definition completion_request :: "Agent \<Rightarrow> (string \<times> string) list \<Rightarrow> CompletionRequest" where
  "completion_request agent msgs =
     \<lparr>req_model = (if model agent = [] then ''gpt-4o'' else model agent),
      req_messages = msgs,
      req_temperature = (if temperature agent = 0 then 0.7 else temperature agent),
      req_max_tokens = 2000\<rparr>"

definition response_text :: "Completion \<Rightarrow> string" where
  "response_text c =
     (case completion_content c of
        None \<Rightarrow> ''No response generated.''
      | Some t \<Rightarrow> if t = [] then ''No response generated.'' else t)"

definition tokens_of :: "Completion \<Rightarrow> int" where
  "tokens_of c = (case total_tokens c of None \<Rightarrow> 0 | Some n \<Rightarrow> n)"

text \<open>
  The turn after the governance checks have passed, from the history query to the final
  log entry (\<^verbatim>\<open>chat\<close>, from \<^verbatim>\<open>// Build system prompt\<close> on).
\<close>

definition chat_complete ::
  "env \<Rightarrow> world \<Rightarrow> Agent \<Rightarrow> string \<Rightarrow> string \<Rightarrow> string \<Rightarrow> string \<Rightarrow> string option \<Rightarrow> string
     \<Rightarrow> RAGEvidence list \<Rightarrow> world \<times> (error + ChatResponse)" where
  "chat_complete env w agent msg agentId userId tenantId conversation ctx evidenceList =
     (let systemPrompt = build_system_prompt agent ctx;
          convId = conversation_or_new env conversation;
          given = (case conversation of None \<Rightarrow> False | Some c \<Rightarrow> c \<noteq> [])
      in
      case (if given then query_error env SelectHistory else None) of
        Some e \<Rightarrow> (w, Inl e)
      | None \<Rightarrow>
     (let history =
            (if given
             then map (\<lambda>m. (role m, content m))
                    (slice (filter (\<lambda>m. msg_conversation_id m = convId) (chat_messages w)) 0 20)
             else []);
          msgs = [(''system'', systemPrompt)] @ history @ [(''user'', msg)]
      in
      case getLLMClient env w tenantId of
        Inl e \<Rightarrow> (w, Inl e)
      | Inr client \<Rightarrow>
     (let request = completion_request agent msgs;
          w1 = w\<lparr>provider_calls := provider_calls w @ [CompletionCall client request]\<rparr>
      in
      case completions_create env client request of
        Inl e \<Rightarrow> (w1, Inl e)
      | Inr completion \<Rightarrow>
     (let responseText = response_text completion;
          tokens = tokens_of completion;
          estimatedCost = (real_of_int tokens / 1000) * 0.01
      in
      case query_error env UpdateCost of
        Some e \<Rightarrow> (w1, Inl e)
      | None \<Rightarrow>
     (let w2 = w1\<lparr>agents :=
                 map (\<lambda>a. if agent_id a = agentId
                           then a\<lparr>cost_used_today := cost_used_today a + estimatedCost\<rparr> else a)
                   (agents w1)\<rparr>
      in
      case query_error env InsertUserMessage of
        Some e \<Rightarrow> (w2, Inl e)
      | None \<Rightarrow>
     (let w3 = w2\<lparr>chat_messages := chat_messages w2 @
                 [\<lparr>msg_tenant_id = tenantId, msg_user_id = userId, msg_agent_id = agentId,
                   msg_conversation_id = convId, role = ''user'', content = msg,
                   tokens_used = 0, latency_ms = 0, msg_evidence = None\<rparr>]\<rparr>
      in
      case query_error env InsertAssistantMessage of
        Some e \<Rightarrow> (w3, Inl e)
      | None \<Rightarrow>
     (let w4 = w3\<lparr>chat_messages := chat_messages w3 @
                 [\<lparr>msg_tenant_id = tenantId, msg_user_id = userId, msg_agent_id = agentId,
                   msg_conversation_id = convId, role = ''assistant'', content = responseText,
                   tokens_used = tokens, latency_ms = elapsed env,
                   msg_evidence = Some evidenceList\<rparr>]\<rparr>;
          w5 = logDecision env w4 tenantId userId agentId ''chat'' Allowed
                 (''Response generated with '' @ string_of_int (int (length evidenceList))
                    @ '' evidence sources'')
                 (truncateText msg 200) (Some (truncateText responseText 200))
                 [(''tokensUsed'', string_of_int tokens),
                  (''evidenceCount'', string_of_int (int (length evidenceList))),
                  (''mode'', (case mode agent of INTERNAL \<Rightarrow> ''INTERNAL''
                                | HYBRID \<Rightarrow> ''HYBRID'' | FREE \<Rightarrow> ''FREE''))]
      in
      (w5, Inr \<lparr>response = responseText, conversationId = convId, tokensUsed = tokens,
                 latencyMs = elapsed env, evidence = Some evidenceList, blocked = None,
                 blockReason = None\<rparr>))))))))"

text \<open>
  \<^verbatim>\<open>chat\<close>: the agent is looked up, then come the kill switch, the daily cost limit, the
  contract, the retrieval (when enabled) and the mode requirements, in this order.
\<close>

definition chat ::
  "env \<Rightarrow> world \<Rightarrow> string \<Rightarrow> string \<Rightarrow> string \<Rightarrow> string \<Rightarrow> string option
     \<Rightarrow> world \<times> (error + ChatResponse)" where
  "chat env w msg agentId userId tenantId conversation =
     (case query_error env SelectAgent of
        Some e \<Rightarrow> (w, Inl e)
      | None \<Rightarrow>
     (case filter (\<lambda>a. agent_id a = agentId \<and> agent_tenant_id a = tenantId \<and> is_active a)
             (agents w) of
        [] \<Rightarrow> (w, Inl (Error ''Agent not found or inactive''))
      | agent # _ \<Rightarrow>
     (if kill_switch agent then
        (logDecision env w tenantId userId agentId ''chat'' Blocked
           ''Agent kill switch is enabled'' msg None [],
         Inr \<lparr>response = ''This agent is currently disabled. Please contact an administrator.'',
              conversationId = conversation_or_new env conversation, tokensUsed = 0,
              latencyMs = elapsed env, evidence = None, blocked = Some True,
              blockReason = Some ''Agent kill switch is enabled''\<rparr>)
      else if cost_used_today agent \<ge> cost_limit_daily agent then
        (logDecision env w tenantId userId agentId ''chat'' Blocked
           ''Daily cost limit exceeded'' msg None [],
         Inr \<lparr>response = ''This agent has reached its daily usage limit. Please try again tomorrow.'',
              conversationId = conversation_or_new env conversation, tokensUsed = 0,
              latencyMs = elapsed env, evidence = None, blocked = Some True,
              blockReason = Some ''Daily cost limit exceeded''\<rparr>)
      else
     (let contractCheck = checkContract msg agent in
      if \<not> allowed contractCheck then
        (logDecision env w tenantId userId agentId ''chat'' Blocked
           (reason_text contractCheck) msg None [],
         Inr \<lparr>response = ''I cannot respond to this request as it falls outside my allowed scope.'',
              conversationId = conversation_or_new env conversation, tokensUsed = 0,
              latencyMs = elapsed env, evidence = None, blocked = Some True,
              blockReason = reason contractCheck\<rparr>)
      else
     (case (if enable_rag agent then retrieveContext env w msg agentId tenantId 5
            else (w, ([], []))) of
        (w1, (ctx, evidenceList)) \<Rightarrow>
     (let modeCheck = checkModeRequirements (mode agent) evidenceList in
      if \<not> allowed modeCheck then
        (logDecision env w1 tenantId userId agentId ''chat'' Blocked
           (reason_text modeCheck) msg None [],
         Inr \<lparr>response = ''I cannot answer this question as I don't have sufficient information in my knowledge base.'',
              conversationId = conversation_or_new env conversation, tokensUsed = 0,
              latencyMs = elapsed env, evidence = Some [], blocked = Some True,
              blockReason = reason modeCheck\<rparr>)
      else chat_complete env w1 agent msg agentId userId tenantId conversation ctx
             evidenceList))))))"

subsection \<open>\<^verbatim>\<open>chatWithDocument\<close>\<close>

definition chatWithDocument ::
  "env \<Rightarrow> world \<Rightarrow> string \<Rightarrow> string \<Rightarrow> string \<Rightarrow> string \<Rightarrow> string
     \<Rightarrow> world \<times> (error + ChatResponse)" where
  "chatWithDocument env w msg documentContent agentId userId tenantId =
     (case query_error env SelectAgent of
        Some e \<Rightarrow> (w, Inl e)
      | None \<Rightarrow>
     (case filter (\<lambda>a. agent_id a = agentId \<and> agent_tenant_id a = tenantId \<and> is_active a)
             (agents w) of
        [] \<Rightarrow> (w, Inl (Error ''Agent not found or inactive''))
      | agent # _ \<Rightarrow>
     (if kill_switch agent then
        (w, Inr \<lparr>response = ''This agent is currently disabled.'', conversationId = uuidv4 env,
                 tokensUsed = 0, latencyMs = elapsed env, evidence = None,
                 blocked = Some True, blockReason = Some ''Agent kill switch is enabled''\<rparr>)
      else
     (let systemPrompt =
            (if system_prompt agent = [] then ''You are a helpful AI assistant.''
             else system_prompt agent)
            @ [CHR 0x0A, CHR 0x0A] @ ''## Uploaded Document Content'' @ [CHR 0x0A]
            @ slice documentContent 0 10000
      in
      case getLLMClient env w tenantId of
        Inl e \<Rightarrow> (w, Inl e)
      | Inr client \<Rightarrow>
     (let request = completion_request agent [(''system'', systemPrompt), (''user'', msg)];
          w1 = w\<lparr>provider_calls := provider_calls w @ [CompletionCall client request]\<rparr>
      in
      case completions_create env client request of
        Inl e \<Rightarrow> (w1, Inl e)
      | Inr completion \<Rightarrow>
          (w1, Inr \<lparr>response = response_text completion, conversationId = uuidv4 env,
                    tokensUsed = tokens_of completion, latencyMs = elapsed env,
                    evidence = Some [\<lparr>document_id = ''uploaded'',
                                      document_name = ''Uploaded Document'',
                                      document_version = 1,
                                      chunk_text = slice documentContent 0 500 @ ''...'',
                                      chunk_index = 0, similarity_score = 1\<rparr>],
                    blocked = None, blockReason = None\<rparr>))))))"

section \<open>A concrete configuration\<close>

text \<open>
  An environment in which every statement succeeds, an INTERNAL agent whose spend has reached
  its daily limit, and a database that holds this agent only.
\<close>

definition demo_env :: env where
  "demo_env =
     \<lparr>embeddings_create = (\<lambda>t. Inr [1, 0]),
      completions_create = (\<lambda>c r. Inr \<lparr>completion_content = Some ''ok'', total_tokens = Some 1000\<rparr>),
      query_error = (\<lambda>q. None),
      pgvector_installed = True,
      similarity_search = (\<lambda>w q cs k. []),
      decrypt = (\<lambda>k. Inr k),
      uuidv4 = ''uuid-1'',
      elapsed = 7,
      OPENAI_API_KEY = ''sk-env'',
      CHUNK_SIZE = 500,
      CHUNK_OVERLAP = 100,
      extname = (\<lambda>p. ''.txt''),
      readFileSync = (\<lambda>p. Inr ''Hello.''),
      mammoth_extractRawText = (\<lambda>p. Inr ''Hello.''),
      pdfParse = (\<lambda>b. Inr ''Hello.'')\<rparr>"

definition demo_agent :: Agent where
  "demo_agent =
     \<lparr>agent_id = ''a1'', agent_tenant_id = ''t1'', system_prompt = [], model = [],
      temperature = 0, mode = INTERNAL, allowed_topics = [''billing''],
      forbidden_topics = [''Salary''], cost_limit_daily = 10, cost_used_today = 10,
      kill_switch = False, enable_rag = True, is_active = True\<rparr>"

definition demo_world :: world where
  "demo_world =
     \<lparr>agents = [demo_agent], collections = [], agent_collections = [], documents = [],
      embeddings = [], chat_messages = [], decision_logs = [], llm_providers = [],
      provider_calls = []\<rparr>"

definition demo_evidence :: "real \<Rightarrow> RAGEvidence" where
  "demo_evidence s =
     \<lparr>document_id = ''d1'', document_name = ''Handbook'', document_version = 1,
      chunk_text = ''Hello.'', chunk_index = 0, similarity_score = s\<rparr>"

text \<open>
  A knowledge base: one global collection with one completed document of four fragments,
  whose cosine similarities to the query vector \<open>[1, 0, 0, 0]\<close> are \<open>3/10\<close>, \<open>4/5\<close>, \<open>3/5\<close>
  and \<open>1\<close>.
\<close>

definition rag_env :: env where
  "rag_env = demo_env\<lparr>embeddings_create := (\<lambda>t. Inr [1, 0, 0, 0])\<rparr>"

definition rag_document :: Document where
  "rag_document =
     \<lparr>doc_id = ''d1'', doc_collection_id = ''c1'', doc_name = ''Handbook'',
      file_path = ''/data/handbook.txt'', mime_type = ''text/plain'', status = completed,
      version = 1, error_message = None\<rparr>"

definition rag_fragment :: "int \<Rightarrow> string \<Rightarrow> real list \<Rightarrow> Embedding" where
  "rag_fragment i body v =
     \<lparr>emb_document_id = ''d1'', emb_chunk_index = i, emb_chunk_text = body, emb_embedding = v\<rparr>"

definition rag_world :: world where
  "rag_world =
     demo_world
       \<lparr>collections := [\<lparr>collection_id = ''c1'', collection_tenant_id = ''t1'', is_global = True\<rparr>],
        documents := [rag_document],
        embeddings := [rag_fragment 0 ''alpha'' [3, 9, 3, 1], rag_fragment 1 ''beta'' [4, 3, 0, 0],
                       rag_fragment 2 ''gamma'' [3, 4, 0, 0], rag_fragment 3 ''delta'' [1, 0, 0, 0]]\<rparr>"

definition rag_chunk :: "int \<Rightarrow> string \<Rightarrow> real \<Rightarrow> ScoredChunk" where
  "rag_chunk i body s =
     \<lparr>documentId = ''d1'', documentName = ''Handbook'', documentVersion = 1, chunkIndex = i,
      chunkBody = body, similarity = s\<rparr>"


text \<open>
  An uploaded document that waits for ingestion, with one fragment left by an earlier
  attempt; and an environment in which the final status update of \<open>processDocument\<close> is
  rejected.
\<close>

definition doc_world :: world where
  "doc_world =
     demo_world\<lparr>documents := [rag_document\<lparr>status := pending\<rparr>],
                 embeddings := [rag_fragment 0 ''stale'' [0, 1]]\<rparr>"

definition fail_env :: env where
  "fail_env =
     demo_env\<lparr>query_error :=
       (\<lambda>q. if q = SetCompleted then Some (Error ''connection lost'') else None)\<rparr>"

text \<open>An environment without a database connection, and one that loses it on the way.\<close>

definition offline_env :: env where
  "offline_env =
     demo_env\<lparr>query_error :=
       (\<lambda>q. if q = Connect then Some (Error ''connection refused'') else None)\<rparr>"

definition dropped_env :: env where
  "dropped_env =
     demo_env\<lparr>query_error :=
       (\<lambda>q. if q = SetProcessing \<or> q = SetFailed then Some (Error ''connection lost'')
            else None)\<rparr>"

section \<open>Properties of \<^verbatim>\<open>cosineSimilarity\<close>\<close>

lemma round_half_even_near:
  assumes "\<bar>r - of_int m\<bar> < 1 / 2"
  shows "round_half_even r = m"
proof (cases "of_int m \<le> r")
  case True
  with assms have "\<lfloor>r\<rfloor> = m" by (intro floor_unique) auto
  with assms True show ?thesis by (simp add: round_half_even_def Let_def)
next
  case False
  with assms have f: "\<lfloor>r\<rfloor> = m - 1" by (intro floor_unique) auto
  from False assms have "1 / 2 < r - of_int (m - 1)" by auto
  with f show ?thesis by (simp add: round_half_even_def Let_def)
qed

lemma pow2_powr: "pow2 k = 2 powr of_int k"
  by (simp add: pow2_def powr_int)

lemma pow2_pos [simp]: "0 < pow2 k"
  by (simp add: pow2_def)

lemma binade_eq:
  assumes "pow2 e \<le> \<bar>x\<bar>" "\<bar>x\<bar> < pow2 (e + 1)"
  shows "\<lfloor>log 2 \<bar>x\<bar>\<rfloor> = e"
proof -
  have "0 < pow2 e" by simp
  with assms(1) have "0 < \<bar>x\<bar>" by linarith
  then show ?thesis
    using assms by (simp add: floor_log_eq_powr_iff pow2_powr)
qed

text \<open>How \<open>round64\<close> is computed: the binade \<open>e\<close> of \<open>x\<close> and the nearest multiple of the unit.\<close>

lemma round64_near:
  assumes "pow2 e \<le> \<bar>x\<bar>" "\<bar>x\<bar> < pow2 (e + 1)"
    and "\<bar>x / pow2 (max e (- 1022) - 52) - of_int m\<bar> < 1 / 2"
  shows "round64 x =
     (if 2 ^ 1024 \<le> \<bar>of_int m * pow2 (max e (- 1022) - 52)\<bar> then inf_of (0 < x)
      else Finite (of_int m * pow2 (max e (- 1022) - 52)))"
proof -
  have "0 < pow2 e" by simp
  with assms(1) have "0 < \<bar>x\<bar>" by linarith
  then have nz: "x \<noteq> 0" by simp
  have b: "\<lfloor>log 2 \<bar>x\<bar>\<rfloor> = e" by (rule binade_eq [OF assms(1,2)])
  have r: "round_half_even (x / pow2 (max e (- 1022) - 52)) = m"
    by (rule round_half_even_near [OF assms(3)])
  show ?thesis
    using nz by (simp add: round64_def Let_def b r)
qed

lemma round64_zero [simp]: "round64 0 = Finite 0"
  by (simp add: round64_def)







lemma round64_small:
  "round64 1 = Finite 1" "round64 2 = Finite 2" "round64 3 = Finite 3"
proof -
  show "round64 1 = Finite 1"
    using round64_near [of 0 1 "2 ^ 52"] by (simp add: pow2_def inf_of_def)
  show "round64 2 = Finite 2"
    using round64_near [of 1 2 "2 ^ 52"] by (simp add: pow2_def inf_of_def)
  show "round64 3 = Finite 3"
    using round64_near [of 1 3 "3 * 2 ^ 51"] by (simp add: pow2_def inf_of_def)
qed







lemma round64_integers:
  "round64 9 = Finite 9" "round64 10 = Finite 10" "round64 81 = Finite 81"
  "round64 90 = Finite 90" "round64 99 = Finite 99" "round64 100 = Finite 100"
proof -
  show "round64 9 = Finite 9"
    using round64_near [of 3 9 "9 * 2 ^ 49"] by (simp add: pow2_def inf_of_def)
  show "round64 10 = Finite 10"
    using round64_near [of 3 10 "10 * 2 ^ 49"] by (simp add: pow2_def inf_of_def)
  show "round64 81 = Finite 81"
    using round64_near [of 6 81 "81 * 2 ^ 46"] by (simp add: pow2_def inf_of_def)
  show "round64 90 = Finite 90"
    using round64_near [of 6 90 "90 * 2 ^ 46"] by (simp add: pow2_def inf_of_def)
  show "round64 99 = Finite 99"
    using round64_near [of 6 99 "99 * 2 ^ 46"] by (simp add: pow2_def inf_of_def)
  show "round64 100 = Finite 100"
    using round64_near [of 6 100 "100 * 2 ^ 46"] by (simp add: pow2_def inf_of_def)
qed

lemma sqrt_100_exact: "sqrt 100 = 10"
  by (rule real_sqrt_unique) simp_all

text \<open>
  The literal \<^verbatim>\<open>0.3\<close> is the binary64 value \<open>round64 (3 / 10)\<close>, just below \<open>3/10\<close>; it is also
  the score that the runtime computes for a fragment whose exact score is \<open>3/10\<close>, so that
  fragment is not above the floor in either arithmetic.
\<close>

lemma literal_floor: "round64 (3 / 10) = Finite (5404319552844595 / 2 ^ 54)"
  using round64_near [of "- 2" "3 / 10" 5404319552844595]
  by (simp add: pow2_def inf_of_def)

lemma floor_score_binary64:
  "cosineSimilarity_binary64 [Finite 1, Finite 0, Finite 0, Finite 0]
     [Finite 3, Finite 9, Finite 3, Finite 1] = round64 (3 / 10)"
proof -
  have "cosine_loop_binary64 [Finite 1, Finite 0, Finite 0, Finite 0]
      [Finite 3, Finite 9, Finite 3, Finite 1] (Finite 0, Finite 0, Finite 0)
      = (Finite 3, Finite 1, Finite 100)"
    by (simp add: round64_small round64_integers)
  then show ?thesis
    by (simp add: cosineSimilarity_binary64_def sqrt_100_exact round64_small round64_integers)
qed


section \<open>Properties of \<^verbatim>\<open>chunkText\<close>\<close>

text \<open>A window start that the loop maps to itself is never left.\<close>

lemma chunk_loop_stuck:
  assumes "chunk_loop t chunkSize overlap start chunks = Some r"
  shows "\<not> (start < int (length t)
            \<and> next_start (window_end t chunkSize start) overlap = start)"
proof (rule chunk_loop.raw_induct
    [where P = "\<lambda>t chunkSize overlap start chunks r.
      \<not> (start < int (length t)
          \<and> next_start (window_end t chunkSize start) overlap = start)", OF _ assms])
  fix f t chunkSize overlap start chunks r
  assume IH: "\<And>t chunkSize overlap start chunks r.
      f t chunkSize overlap start chunks = Some r \<Longrightarrow>
      \<not> (start < int (length t)
          \<and> next_start (window_end t chunkSize start) overlap = start)"
    and step: "(if start < int (length t)
       then f t chunkSize overlap (next_start (window_end t chunkSize start) overlap)
              (chunks @ [trim (slice t start (window_end t chunkSize start))])
       else Some chunks) = Some r"
  show "\<not> (start < int (length t)
            \<and> next_start (window_end t chunkSize start) overlap = start)"
  proof
    assume a: "start < int (length t)
        \<and> next_start (window_end t chunkSize start) overlap = start"
    with step have
      "f t chunkSize overlap start
         (chunks @ [trim (slice t start (window_end t chunkSize start))]) = Some r"
      by simp
    from IH [OF this] a show False by simp
  qed
qed

lemma chunkText_stuck:
  assumes "0 < length t" and "next_start (window_end t chunkSize 0) overlap = 0"
  shows "chunkText t chunkSize overlap = None"
proof (cases "chunk_loop t chunkSize overlap 0 []")
  case None
  then show ?thesis by (simp add: chunkText_def)
next
  case (Some r)
  from chunk_loop_stuck [OF this] assms show ?thesis by simp
qed

lemma stuck_next: "next_start (window_end ''abcdef'' 5 0) 5 = 0"
  by code_simp

text \<open>
  Claim C8 says that \<open>chunkText\<close> returns for every text, size and overlap. With
  \<open>overlap = chunkSize = 5\<close> the next window of \<open>''abcdef''\<close> starts at \<open>0\<close> again and again:
  the loop never ends and nothing is returned.
\<close>

theorem chunkText_does_not_return: "chunkText ''abcdef'' 5 5 = None"
  by (rule chunkText_stuck) (simp_all add: stuck_next)

lemma lastIndexOf_bounds:
  "lastIndexOf s c k = - 1 \<or>
   (0 \<le> lastIndexOf s c k \<and> lastIndexOf s c k \<le> max k 0
      \<and> lastIndexOf s c k < int (length s) \<and> s ! nat (lastIndexOf s c k) = c)"
proof (cases "filter (\<lambda>i. s ! i = c) (rev [0 ..< nat (min (max k 0) (int (length s) - 1) + 1)])")
  case Nil
  then show ?thesis by (simp add: lastIndexOf_def Let_def)
next
  case (Cons i rest)
  then have "i \<in> set (filter (\<lambda>i. s ! i = c) (rev [0 ..< nat (min (max k 0) (int (length s) - 1) + 1)]))"
    by simp
  then have "i < nat (min (max k 0) (int (length s) - 1) + 1)" and "s ! i = c"
    by simp_all
  moreover have "lastIndexOf s c k = int i"
    using Cons by (simp add: lastIndexOf_def Let_def)
  ultimately show ?thesis by auto
qed

lemma window_end_cases:
  assumes "0 \<le> start + chunkSize"
  shows "window_end t chunkSize start = start + chunkSize
     \<or> (2 * (window_end t chunkSize start - 1) > 2 * start + chunkSize
         \<and> window_end t chunkSize start \<le> start + chunkSize + 1)"
proof -
  let ?e = "start + chunkSize"
  have "max (lastIndexOf t CHR ''.'' ?e) (lastIndexOf t CHR 0x0A ?e) \<le> ?e"
    using lastIndexOf_bounds [of t "CHR ''.''" ?e] lastIndexOf_bounds [of t "CHR 0x0A" ?e] assms
    by auto
  then show ?thesis
    by (auto simp: window_end_def Let_def)
qed

lemma window_end_no_terminator:
  assumes "0 \<le> start + chunkSize"
    and "\<not> (start + chunkSize < int (length t)
            \<and> t ! nat (start + chunkSize) \<in> {CHR ''.'', CHR 0x0A})"
  shows "window_end t chunkSize start \<le> start + chunkSize"
proof (cases "start + chunkSize < int (length t)")
  case False
  then show ?thesis by (simp add: window_end_def Let_def)
next
  case True
  let ?e = "start + chunkSize"
  from True assms have nt: "t ! nat ?e \<noteq> CHR ''.''" "t ! nat ?e \<noteq> CHR 0x0A" by auto
  have "lastIndexOf t CHR ''.'' ?e < ?e"
    using lastIndexOf_bounds [of t "CHR ''.''" ?e] assms(1) nt(1)
    by (cases "lastIndexOf t CHR ''.'' ?e = ?e") auto
  moreover have "lastIndexOf t CHR 0x0A ?e < ?e"
    using lastIndexOf_bounds [of t "CHR 0x0A" ?e] assms(1) nt(2)
    by (cases "lastIndexOf t CHR 0x0A ?e = ?e") auto
  ultimately show ?thesis
    by (auto simp: window_end_def Let_def)
qed

lemma slice_nonneg:
  assumes "0 \<le> s" "s \<le> e"
  shows "slice t s e = take (nat e - nat s) (drop (nat s) t)"
proof (cases "nat s \<ge> length t")
  case True
  then show ?thesis using assms by (simp add: slice_def slice_index_def Let_def)
next
  case False
  then have s: "min (nat s) (length t) = nat s" by simp
  show ?thesis
  proof (cases "nat e \<le> length t")
    case True
    then show ?thesis using assms s by (simp add: slice_def slice_index_def Let_def)
  next
    case False
    then have "min (nat e) (length t) = length t" by simp
    then show ?thesis using assms s False by (simp add: slice_def slice_index_def Let_def)
  qed
qed

lemma drop_slice_append:
  assumes "0 \<le> s" "0 \<le> ov" "s + ov \<le> e"
  shows "drop (nat ov) (slice t s e) @ drop (nat e) t = drop (nat (s + ov)) t"
proof -
  have "slice t s e = take (nat e - nat s) (drop (nat s) t)"
    using assms by (intro slice_nonneg) auto
  then have "drop (nat ov) (slice t s e) = take (nat e - nat s - nat ov) (drop (nat ov + nat s) t)"
    by (simp add: drop_take)
  moreover have "nat ov + nat s = nat (s + ov)" using assms by simp
  moreover have "nat e = (nat e - nat s - nat ov) + nat (s + ov)" using assms by simp
  then have "drop (nat e) t = drop (nat e - nat s - nat ov) (drop (nat (s + ov)) t)"
    by (metis drop_drop)
  ultimately have "drop (nat ov) (slice t s e) @ drop (nat e) t
      = take (nat e - nat s - nat ov) (drop (nat (s + ov)) t)
        @ drop (nat e - nat s - nat ov) (drop (nat (s + ov)) t)"
    by (simp only:)
  then show ?thesis by (simp only: append_take_drop_id)
qed

lemma length_slice_le: "0 \<le> s \<Longrightarrow> s \<le> e \<Longrightarrow> length (slice t s e) \<le> nat (e - s)"
  by (simp add: slice_nonneg)

lemma length_trim_le: "length (trim s) \<le> length s"
proof -
  have "length (dropWhile is_space (rev (dropWhile is_space s))) \<le> length (rev (dropWhile is_space s))"
    by (rule length_dropWhile_le)
  also have "\<dots> \<le> length s" by (simp add: length_dropWhile_le)
  finally show ?thesis by (simp add: trim_def)
qed

lemma next_start_progress:
  assumes "0 \<le> overlap" "overlap < chunkSize" "2 * overlap \<le> chunkSize + 2" "0 \<le> start"
  shows "start + overlap < window_end t chunkSize start"
    and "next_start (window_end t chunkSize start) overlap
          = window_end t chunkSize start - overlap"
proof -
  have "0 \<le> start + chunkSize" using assms by simp
  from window_end_cases [OF this, of t] assms
  show "start + overlap < window_end t chunkSize start" by auto
  with assms show "next_start (window_end t chunkSize start) overlap
          = window_end t chunkSize start - overlap"
    by (simp add: next_start_def Let_def)
qed

lemma chunk_run:
  assumes "0 \<le> overlap" "overlap < chunkSize" "2 * overlap \<le> chunkSize + 2" "0 \<le> start"
  shows "\<exists>ws. chunk_windows t chunkSize overlap start accw = Some (accw @ ws)
     \<and> chunk_loop t chunkSize overlap start accc
         = Some (accc @ map (\<lambda>(s, e). trim (slice t s e)) ws)
     \<and> concat (map (\<lambda>(s, e). drop (nat overlap) (slice t s e)) ws)
         = drop (nat (start + overlap)) t
     \<and> (\<forall>(s, e)\<in>set ws. 0 \<le> s \<and> e = window_end t chunkSize s)
     \<and> (if start < int (length t) then ws \<noteq> [] \<and> hd ws = (start, window_end t chunkSize start)
         else ws = [])"
  using assms(4)
proof (induction "nat (int (length t) - start)" arbitrary: start accw accc rule: less_induct)
  case less
  show ?case
  proof (cases "start < int (length t)")
    case False
    then have "chunk_windows t chunkSize overlap start accw = Some accw"
      and "chunk_loop t chunkSize overlap start accc = Some accc"
      by (simp_all add: chunk_windows.simps chunk_loop.simps)
    moreover have "drop (nat (start + overlap)) t = []"
      using False assms(1) by simp
    ultimately show ?thesis using False by (intro exI [of _ "[]"]) simp
  next
    case True
    let ?e = "window_end t chunkSize start"
    let ?s = "?e - overlap"
    have prog: "start + overlap < ?e" and nxt: "next_start ?e overlap = ?s"
      using next_start_progress [OF assms(1-3) less.prems, of t] by simp_all
    have s_pos: "0 \<le> ?s" using prog less.prems by simp
    have dec: "nat (int (length t) - ?s) < nat (int (length t) - start)"
      using prog True assms(1) by simp
    from less.hyps [OF dec s_pos, of "accw @ [(start, ?e)]" "accc @ [trim (slice t start ?e)]"]
    obtain ws where
      w: "chunk_windows t chunkSize overlap ?s (accw @ [(start, ?e)])
            = Some ((accw @ [(start, ?e)]) @ ws)"
      and c: "chunk_loop t chunkSize overlap ?s (accc @ [trim (slice t start ?e)])
            = Some ((accc @ [trim (slice t start ?e)]) @ map (\<lambda>(s, e). trim (slice t s e)) ws)"
      and d: "concat (map (\<lambda>(s, e). drop (nat overlap) (slice t s e)) ws)
            = drop (nat (?s + overlap)) t"
      and i: "\<forall>(s, e)\<in>set ws. 0 \<le> s \<and> e = window_end t chunkSize s"
      by blast
    have w': "chunk_windows t chunkSize overlap start accw = Some (accw @ (start, ?e) # ws)"
      using True w nxt by (subst chunk_windows.simps) simp
    have c': "chunk_loop t chunkSize overlap start accc
            = Some (accc @ map (\<lambda>(s, e). trim (slice t s e)) ((start, ?e) # ws))"
      using True c nxt by (subst chunk_loop.simps) simp
    have "drop (nat overlap) (slice t start ?e) @ drop (nat ?e) t = drop (nat (start + overlap)) t"
      using less.prems assms(1) prog by (intro drop_slice_append) simp_all
    with d have d': "concat (map (\<lambda>(s, e). drop (nat overlap) (slice t s e)) ((start, ?e) # ws))
            = drop (nat (start + overlap)) t"
      by simp
    have i': "\<forall>(s, e)\<in>set ((start, ?e) # ws). 0 \<le> s \<and> e = window_end t chunkSize s"
      using i less.prems by simp
    show ?thesis
      using w' c' d' i' True by (intro exI [of _ "(start, ?e) # ws"]) simp
  qed
qed

text \<open>
  Claim C7, as amended. For \<open>0 \<le> overlap < chunkSize\<close> and \<open>2 * overlap \<le> chunkSize + 2\<close>,
  \<open>chunkText\<close> returns, and what it returns are the non-empty trimmed texts of consecutive
  windows of the text: the windows, untrimmed, reassemble to the text when each later one
  loses its first \<open>overlap\<close> characters, so they leave no gap; and a fragment is at most
  \<open>chunkSize\<close> long whenever the character at index \<open>start + chunkSize\<close> is not a sentence
  terminator or a line break. White space trimmed off a fragment is not in the result.
\<close>

theorem chunkText_covers:
  assumes "0 \<le> overlap" "overlap < chunkSize" "2 * overlap \<le> chunkSize + 2"
  shows "\<exists>ws. chunk_windows t chunkSize overlap 0 [] = Some ws
     \<and> chunkText t chunkSize overlap
         = Some (filter (\<lambda>chunk. length chunk > 0) (map (\<lambda>(s, e). trim (slice t s e)) ws))
     \<and> reassemble overlap (map (\<lambda>(s, e). slice t s e) ws) = t
     \<and> (\<forall>(s, e)\<in>set ws.
           \<not> (s + chunkSize < int (length t)
                \<and> t ! nat (s + chunkSize) \<in> {CHR ''.'', CHR 0x0A})
           \<longrightarrow> length (trim (slice t s e)) \<le> nat chunkSize)"
proof -
  from chunk_run [OF assms, of 0 t "[]" "[]"]
  obtain ws where
    w: "chunk_windows t chunkSize overlap 0 [] = Some ws"
    and c: "chunk_loop t chunkSize overlap 0 [] = Some (map (\<lambda>(s, e). trim (slice t s e)) ws)"
    and d: "concat (map (\<lambda>(s, e). drop (nat overlap) (slice t s e)) ws) = drop (nat overlap) t"
    and i: "\<forall>(s, e)\<in>set ws. 0 \<le> s \<and> e = window_end t chunkSize s"
    and h: "if 0 < int (length t) then ws \<noteq> [] \<and> hd ws = (0, window_end t chunkSize 0)
            else ws = []"
    by auto
  have c': "chunkText t chunkSize overlap
         = Some (filter (\<lambda>chunk. length chunk > 0) (map (\<lambda>(s, e). trim (slice t s e)) ws))"
    using c by (simp add: chunkText_def)
  have r: "reassemble overlap (map (\<lambda>(s, e). slice t s e) ws) = t"
  proof (cases "t = []")
    case True
    with h show ?thesis by simp
  next
    case False
    with h obtain ws' where ws: "ws = (0, window_end t chunkSize 0) # ws'"
      by (cases ws) auto
    let ?e = "window_end t chunkSize 0"
    have prog: "overlap < ?e"
      using next_start_progress(1) [OF assms, of 0 t] by simp
    have first: "slice t 0 ?e = take (nat ?e) t"
      using prog assms(1) by (subst slice_nonneg) simp_all
    let ?C = "concat (map (drop (nat overlap)) (map (\<lambda>(s, e). slice t s e) ws'))"
    have "map (\<lambda>(s, e). drop (nat overlap) (slice t s e)) ws'
        = map (drop (nat overlap)) (map (\<lambda>(s, e). slice t s e) ws')"
      by (simp add: case_prod_unfold comp_def)
    with d ws have A: "drop (nat overlap) (slice t 0 ?e) @ ?C = drop (nat overlap) t"
      by simp
    have B: "take (nat overlap) (slice t 0 ?e) = take (nat overlap) t"
      using prog assms(1) by (simp add: first min_def)
    have "slice t 0 ?e @ ?C
        = (take (nat overlap) (slice t 0 ?e) @ drop (nat overlap) (slice t 0 ?e)) @ ?C"
      by (simp only: append_take_drop_id)
    also have "\<dots> = take (nat overlap) t @ (drop (nat overlap) (slice t 0 ?e) @ ?C)"
      by (simp only: B append_assoc)
    also have "\<dots> = take (nat overlap) t @ drop (nat overlap) t"
      by (simp only: A)
    also have "\<dots> = t" by (rule append_take_drop_id)
    finally show ?thesis using ws by simp
  qed
  have b: "\<forall>(s, e)\<in>set ws.
           \<not> (s + chunkSize < int (length t)
                \<and> t ! nat (s + chunkSize) \<in> {CHR ''.'', CHR 0x0A})
           \<longrightarrow> length (trim (slice t s e)) \<le> nat chunkSize"
  proof (intro ballI, clarify)
    fix s e
    assume m: "(s, e) \<in> set ws"
      and n: "\<not> (s + chunkSize < int (length t)
                \<and> t ! nat (s + chunkSize) \<in> {CHR ''.'', CHR 0x0A})"
    from i m have s: "0 \<le> s" and e: "e = window_end t chunkSize s" by auto
    have "0 \<le> s + chunkSize" using s assms by simp
    from window_end_no_terminator [OF this n] e have le: "e \<le> s + chunkSize" by simp
    have "s \<le> e"
      using next_start_progress(1) [OF assms s, of t] e assms(1) by simp
    with s have "length (slice t s e) \<le> nat (e - s)" by (rule length_slice_le)
    with le length_trim_le [of "slice t s e"]
    show "length (trim (slice t s e)) \<le> nat chunkSize" by simp
  qed
  from w c' r b show ?thesis by blast
qed

lemma demo_windows:
  "chunk_windows ''abcd. efg hij'' 6 1 0 [] = Some [(0, 5), (4, 10), (9, 15)]"
  by code_simp

lemma demo_window_texts:
  "map (\<lambda>(s, e). slice ''abcd. efg hij'' s e) [(0, 5), (4, 10), (9, 15)]
     = [''abcd.'', ''. efg '', '' hij'']"
  by code_simp

lemma demo_window_chunks:
  "filter (\<lambda>chunk. length chunk > 0)
     (map (\<lambda>(s, e). trim (slice ''abcd. efg hij'' s e)) [(0, 5), (4, 10), (9, 15)])
     = [''abcd.'', ''. efg'', ''hij'']"
  by code_simp

lemma boundary_windows:
  "chunk_windows ''abc.e'' 4 3 0 [] = Some [(0, 4), (1, 5), (2, 6), (3, 7), (4, 8)]"
  by code_simp

lemma boundary_window_chunks:
  "filter (\<lambda>chunk. length chunk > 0)
     (map (\<lambda>(s, e). trim (slice ''abc.e'' s e)) [(0, 4), (1, 5), (2, 6), (3, 7), (4, 8)])
     = [''abc.'', ''bc.e'', ''c.e'', ''.e'', ''e'']"
  by code_simp

theorem chunkText_covers_witness:
  "(0::int) \<le> 1 \<and> (1::int) < 6 \<and> 2 * (1::int) \<le> 6 + 2
   \<and> chunk_windows ''abcd. efg hij'' 6 1 0 [] = Some [(0, 5), (4, 10), (9, 15)]
   \<and> chunkText ''abcd. efg hij'' 6 1 = Some [''abcd.'', ''. efg'', ''hij'']
   \<and> reassemble 1 [''abcd.'', ''. efg '', '' hij''] = ''abcd. efg hij''
   \<and> (0::int) \<le> 3 \<and> (3::int) < 4 \<and> 2 * (3::int) \<le> 4 + 2
   \<and> chunkText ''abc.e'' 4 3 = Some [''abc.'', ''bc.e'', ''c.e'', ''.e'', ''e'']"
proof -
  have h: "(0::int) \<le> 1" "(1::int) < 6" "2 * (1::int) \<le> 6 + 2" by simp_all
  from chunkText_covers [OF h, of "''abcd. efg hij''"]
  obtain ws where
    w: "chunk_windows ''abcd. efg hij'' 6 1 0 [] = Some ws"
    and c: "chunkText ''abcd. efg hij'' 6 1
         = Some (filter (\<lambda>chunk. length chunk > 0)
                  (map (\<lambda>(s, e). trim (slice ''abcd. efg hij'' s e)) ws))"
    and r: "reassemble 1 (map (\<lambda>(s, e). slice ''abcd. efg hij'' s e) ws) = ''abcd. efg hij''"
    by blast
  from w have ws: "ws = [(0, 5), (4, 10), (9, 15)]"
    by (simp add: demo_windows)
  from c have c': "chunkText ''abcd. efg hij'' 6 1 = Some [''abcd.'', ''. efg'', ''hij'']"
    by (simp only: ws demo_window_chunks)
  from r have r': "reassemble 1 [''abcd.'', ''. efg '', '' hij''] = ''abcd. efg hij''"
    by (simp only: ws demo_window_texts)
  have g: "(0::int) \<le> 3" "(3::int) < 4" "2 * (3::int) \<le> 4 + 2" by simp_all
  from chunkText_covers [OF g, of "''abc.e''"]
  obtain vs where
    v: "chunk_windows ''abc.e'' 4 3 0 [] = Some vs"
    and b: "chunkText ''abc.e'' 4 3
         = Some (filter (\<lambda>chunk. length chunk > 0)
                  (map (\<lambda>(s, e). trim (slice ''abc.e'' s e)) vs))"
    by blast
  from v have vs: "vs = [(0, 4), (1, 5), (2, 6), (3, 7), (4, 8)]"
    by (simp add: boundary_windows)
  from b have b': "chunkText ''abc.e'' 4 3 = Some [''abc.'', ''bc.e'', ''c.e'', ''.e'', ''e'']"
    by (simp only: vs boundary_window_chunks)
  show ?thesis
    by (intro conjI) (rule h(1), rule h(2), rule h(3), rule demo_windows, rule c', rule r',
        rule g(1), rule g(2), rule g(3), rule b')
qed

text \<open>
  Claim C7 as stated fails. The fragments of \<open>'' a''\<close> do not reassemble to it, since
  trimming drops the leading blank; a window cut at a terminator that sits at index
  \<open>start + chunkSize\<close> is one character longer than \<open>chunkSize\<close>; with a negative overlap
  the windows leave gaps; and with an overlap as large as the size, or large enough to lead
  back from a break point to the start, nothing is returned.
\<close>

theorem chunkText_reassemble_counterexample:
  "chunkText '' a'' 500 100 = Some [''a'']
   \<and> reassemble 100 [''a''] \<noteq> '' a''
   \<and> chunkText ''abcd.fgh'' 4 0 = Some [''abcd.'', ''fgh'']
   \<and> \<not> int (length ''abcd.'') \<le> 4
   \<and> chunkText ''abcdef'' 2 (- 1) = Some [''ab'', ''de'']
   \<and> reassemble (- 1) [''ab'', ''de''] \<noteq> ''abcdef''
   \<and> chunkText ''abc'' 2 2 = None
   \<and> chunkText ''abcdef.hijklmnop'' 10 8 = None"
proof (intro conjI)
  show "chunkText '' a'' 500 100 = Some [''a'']" by code_simp
  show "reassemble 100 [''a''] \<noteq> '' a''" by simp
  show "chunkText ''abcd.fgh'' 4 0 = Some [''abcd.'', ''fgh'']" by code_simp
  show "\<not> int (length ''abcd.'') \<le> 4" by simp
  show "chunkText ''abcdef'' 2 (- 1) = Some [''ab'', ''de'']" by code_simp
  show "reassemble (- 1) [''ab'', ''de''] \<noteq> ''abcdef''" by simp
  have "next_start (window_end ''abc'' 2 0) 2 = 0" by code_simp
  then show "chunkText ''abc'' 2 2 = None"
    by (intro chunkText_stuck) simp_all
  have "next_start (window_end ''abcdef.hijklmnop'' 10 0) 8 = 0" by code_simp
  then show "chunkText ''abcdef.hijklmnop'' 10 8 = None"
    by (intro chunkText_stuck) simp_all
qed

section \<open>Properties of \<^verbatim>\<open>checkContract\<close>\<close>

lemma str_includes_sublist: "str_includes s t \<longleftrightarrow> sublist t s"
proof (induction s)
  case Nil
  show ?case by simp
next
  case (Cons c s)
  have "prefix t (c # s) \<longleftrightarrow> take (length t) (c # s) = t"
    by (metis append_eq_conv_conj prefix_def append_take_drop_id)
  then show ?case using Cons by (auto simp: sublist_Cons_right)
qed

lemma forbidden_loop_None:
  "forbidden_loop m ts = None \<longleftrightarrow> (\<forall>t\<in>set ts. \<not> sublist (toLowerCase t) m)"
  by (induction ts) (simp_all add: str_includes_sublist)

lemma forbidden_loop_Some:
  "forbidden_loop m ts = Some r \<Longrightarrow>
   \<exists>t. find (\<lambda>t. sublist (toLowerCase t) m) ts = Some t
     \<and> r = \<lparr>allowed = False,
            reason = Some (''Message contains forbidden topic: '' @ [CHR 0x22] @ t @ [CHR 0x22])\<rparr>"
  by (induction ts) (auto simp: str_includes_sublist split: if_splits)

text \<open>
  Claim C3. \<open>checkContract\<close> blocks, citing the first forbidden topic that matches, whenever
  the lower-cased message contains a lower-cased forbidden topic as a substring, whatever the
  allowed topics are; when no forbidden topic matches and \<open>allowed_topics\<close> is non-empty, it
  blocks with the generic reason unless the message contains an allowed topic; otherwise it
  allows.
\<close>

theorem checkContract_spec:
  "((\<exists>t\<in>set (forbidden_topics agent). sublist (toLowerCase t) (toLowerCase msg)) \<longrightarrow>
      (\<exists>t. find (\<lambda>t. sublist (toLowerCase t) (toLowerCase msg)) (forbidden_topics agent) = Some t
         \<and> checkContract msg agent =
             \<lparr>allowed = False,
              reason = Some (''Message contains forbidden topic: '' @ [CHR 0x22] @ t @ [CHR 0x22])\<rparr>))
   \<and> ((\<forall>t\<in>set (forbidden_topics agent). \<not> sublist (toLowerCase t) (toLowerCase msg))
        \<and> allowed_topics agent \<noteq> []
        \<and> (\<forall>t\<in>set (allowed_topics agent). \<not> sublist (toLowerCase t) (toLowerCase msg)) \<longrightarrow>
      checkContract msg agent =
        \<lparr>allowed = False, reason = Some ''Message does not match any allowed topics''\<rparr>)
   \<and> ((\<forall>t\<in>set (forbidden_topics agent). \<not> sublist (toLowerCase t) (toLowerCase msg))
        \<and> (allowed_topics agent = []
            \<or> (\<exists>t\<in>set (allowed_topics agent). sublist (toLowerCase t) (toLowerCase msg))) \<longrightarrow>
      checkContract msg agent = \<lparr>allowed = True, reason = None\<rparr>)"
proof (intro conjI impI)
  assume "\<exists>t\<in>set (forbidden_topics agent). sublist (toLowerCase t) (toLowerCase msg)"
  then have "forbidden_loop (toLowerCase msg) (forbidden_topics agent) \<noteq> None"
    by (simp add: forbidden_loop_None)
  then obtain r where r: "forbidden_loop (toLowerCase msg) (forbidden_topics agent) = Some r"
    by blast
  from forbidden_loop_Some [OF r] r
  show "\<exists>t. find (\<lambda>t. sublist (toLowerCase t) (toLowerCase msg)) (forbidden_topics agent) = Some t
         \<and> checkContract msg agent =
             \<lparr>allowed = False,
              reason = Some (''Message contains forbidden topic: '' @ [CHR 0x22] @ t @ [CHR 0x22])\<rparr>"
    by (auto simp: checkContract_def)
next
  assume a: "(\<forall>t\<in>set (forbidden_topics agent). \<not> sublist (toLowerCase t) (toLowerCase msg))
        \<and> allowed_topics agent \<noteq> []
        \<and> (\<forall>t\<in>set (allowed_topics agent). \<not> sublist (toLowerCase t) (toLowerCase msg))"
  then have "forbidden_loop (toLowerCase msg) (forbidden_topics agent) = None"
    by (simp add: forbidden_loop_None)
  with a show "checkContract msg agent =
        \<lparr>allowed = False, reason = Some ''Message does not match any allowed topics''\<rparr>"
    by (simp add: checkContract_def list_ex_iff str_includes_sublist)
next
  assume a: "(\<forall>t\<in>set (forbidden_topics agent). \<not> sublist (toLowerCase t) (toLowerCase msg))
        \<and> (allowed_topics agent = []
            \<or> (\<exists>t\<in>set (allowed_topics agent). sublist (toLowerCase t) (toLowerCase msg)))"
  then have "forbidden_loop (toLowerCase msg) (forbidden_topics agent) = None"
    by (simp add: forbidden_loop_None)
  with a show "checkContract msg agent = \<lparr>allowed = True, reason = None\<rparr>"
    by (auto simp: checkContract_def list_ex_iff str_includes_sublist)
qed

lemma lower_demo_message: "toLowerCase ''My SALARY and Billing'' = ''my salary and billing''"
  by (simp add: toLowerCase_def lower_char_def)

lemma lower_demo_topics:
  "toLowerCase ''Salary'' = ''salary''" "toLowerCase ''billing'' = ''billing''"
  "toLowerCase ''Hello'' = ''hello''" "toLowerCase ''Billing, please'' = ''billing, please''"
  by (simp_all add: toLowerCase_def lower_char_def)

lemma demo_matches:
  "sublist (toLowerCase ''Salary'') (toLowerCase ''My SALARY and Billing'')"
  "sublist (toLowerCase ''billing'') (toLowerCase ''My SALARY and Billing'')"
  "\<not> sublist (toLowerCase ''Salary'') (toLowerCase ''Hello'')"
  "\<not> sublist (toLowerCase ''billing'') (toLowerCase ''Hello'')"
  "\<not> sublist (toLowerCase ''Salary'') (toLowerCase ''Billing, please'')"
  "sublist (toLowerCase ''billing'') (toLowerCase ''Billing, please'')"
  by (simp_all add: lower_demo_message lower_demo_topics str_includes_sublist [symmetric])

theorem checkContract_spec_witness:
  "sublist (toLowerCase ''Salary'') (toLowerCase ''My SALARY and Billing'')
   \<and> sublist (toLowerCase ''billing'') (toLowerCase ''My SALARY and Billing'')
   \<and> checkContract ''My SALARY and Billing'' demo_agent =
       \<lparr>allowed = False,
        reason = Some (''Message contains forbidden topic: '' @ [CHR 0x22] @ ''Salary'' @ [CHR 0x22])\<rparr>
   \<and> checkContract ''Hello'' demo_agent =
       \<lparr>allowed = False, reason = Some ''Message does not match any allowed topics''\<rparr>
   \<and> checkContract ''Billing, please'' demo_agent = \<lparr>allowed = True, reason = None\<rparr>"
proof (intro conjI)
  show "sublist (toLowerCase ''Salary'') (toLowerCase ''My SALARY and Billing'')"
    by (rule demo_matches)
  show "sublist (toLowerCase ''billing'') (toLowerCase ''My SALARY and Billing'')"
    by (rule demo_matches)
  show "checkContract ''My SALARY and Billing'' demo_agent =
       \<lparr>allowed = False,
        reason = Some (''Message contains forbidden topic: '' @ [CHR 0x22] @ ''Salary'' @ [CHR 0x22])\<rparr>"
    using checkContract_spec [of demo_agent "''My SALARY and Billing''"]
    by (simp add: demo_agent_def demo_matches)
  show "checkContract ''Hello'' demo_agent =
       \<lparr>allowed = False, reason = Some ''Message does not match any allowed topics''\<rparr>"
    using checkContract_spec [of demo_agent "''Hello''"]
    by (simp add: demo_agent_def demo_matches)
  show "checkContract ''Billing, please'' demo_agent = \<lparr>allowed = True, reason = None\<rparr>"
    using checkContract_spec [of demo_agent "''Billing, please''"]
    by (simp add: demo_agent_def demo_matches)
qed


section \<open>Properties of \<^verbatim>\<open>checkModeRequirements\<close>\<close>

lemma Math_max_Max: "xs \<noteq> [] \<Longrightarrow> Math_max xs = Some (Max (set xs))"
  by (cases xs) (simp_all add: Max.set_eq_fold [symmetric])

lemma mode_allowed_iff:
  "allowed (checkModeRequirements INTERNAL evidenceList) \<longleftrightarrow>
     (\<exists>e\<in>set evidenceList. similarity_score e \<ge> 0.5)"
proof (cases "evidenceList = []")
  case True
  then show ?thesis by (simp add: checkModeRequirements_def)
next
  case False
  have "\<not> Max (similarity_score ` set evidenceList) < 0.5 \<longleftrightarrow>
          (\<exists>e\<in>set evidenceList. similarity_score e \<ge> 0.5)"
    using False by (subst Max_less_iff) (auto simp: not_less)
  moreover have "allowed (checkModeRequirements INTERNAL evidenceList) \<longleftrightarrow>
          \<not> Max (similarity_score ` set evidenceList) < 0.5"
    using False by (simp add: checkModeRequirements_def Math_max_Max)
  ultimately show ?thesis by (simp only:)
qed

text \<open>
  Claim C2. \<open>checkModeRequirements\<close> allows every call in mode FREE or HYBRID. In mode
  INTERNAL it blocks with the no-evidence reason on an empty evidence list, blocks with a
  different, low-confidence reason when the list is non-empty and its largest similarity score
  is below 0.5, and allows exactly when some evidence item scores at least 0.5.
\<close>

theorem checkModeRequirements_spec:
  "((m = FREE \<or> m = HYBRID) \<longrightarrow>
       checkModeRequirements m evidenceList = \<lparr>allowed = True, reason = None\<rparr>)
   \<and> checkModeRequirements INTERNAL [] =
       \<lparr>allowed = False,
        reason = Some ''INTERNAL mode requires document evidence. No relevant documents found.''\<rparr>
   \<and> (evidenceList \<noteq> [] \<and> Max (similarity_score ` set evidenceList) < 0.5 \<longrightarrow>
       checkModeRequirements INTERNAL evidenceList =
         \<lparr>allowed = False,
          reason = Some ''INTERNAL mode requires high-confidence evidence. Available evidence has low similarity scores.''\<rparr>)
   \<and> (allowed (checkModeRequirements INTERNAL evidenceList) \<longleftrightarrow>
        (\<exists>e\<in>set evidenceList. similarity_score e \<ge> 0.5))
   \<and> ''INTERNAL mode requires document evidence. No relevant documents found.'' \<noteq>
       ''INTERNAL mode requires high-confidence evidence. Available evidence has low similarity scores.''"
proof (intro conjI impI)
  assume "m = FREE \<or> m = HYBRID"
  then show "checkModeRequirements m evidenceList = \<lparr>allowed = True, reason = None\<rparr>"
    by (auto simp: checkModeRequirements_def)
next
  show "checkModeRequirements INTERNAL [] =
       \<lparr>allowed = False,
        reason = Some ''INTERNAL mode requires document evidence. No relevant documents found.''\<rparr>"
    by (simp add: checkModeRequirements_def)
next
  assume "evidenceList \<noteq> [] \<and> Max (similarity_score ` set evidenceList) < 0.5"
  then show "checkModeRequirements INTERNAL evidenceList =
         \<lparr>allowed = False,
          reason = Some ''INTERNAL mode requires high-confidence evidence. Available evidence has low similarity scores.''\<rparr>"
    by (simp add: checkModeRequirements_def Math_max_Max)
next
  show "allowed (checkModeRequirements INTERNAL evidenceList) \<longleftrightarrow>
        (\<exists>e\<in>set evidenceList. similarity_score e \<ge> 0.5)"
    by (rule mode_allowed_iff)
next
  show "''INTERNAL mode requires document evidence. No relevant documents found.'' \<noteq>
       ''INTERNAL mode requires high-confidence evidence. Available evidence has low similarity scores.''"
    by simp
qed

theorem checkModeRequirements_spec_witness:
  "checkModeRequirements FREE [] = \<lparr>allowed = True, reason = None\<rparr>
   \<and> checkModeRequirements HYBRID [demo_evidence 0.4] = \<lparr>allowed = True, reason = None\<rparr>
   \<and> Max (similarity_score ` set [demo_evidence 0.4, demo_evidence 0.35]) < 0.5
   \<and> checkModeRequirements INTERNAL [demo_evidence 0.4, demo_evidence 0.35] =
         \<lparr>allowed = False,
          reason = Some ''INTERNAL mode requires high-confidence evidence. Available evidence has low similarity scores.''\<rparr>
   \<and> allowed (checkModeRequirements INTERNAL [demo_evidence 0.4, demo_evidence 0.5])"
proof (intro conjI)
  show "checkModeRequirements FREE [] = \<lparr>allowed = True, reason = None\<rparr>"
    using checkModeRequirements_spec [of FREE "[]"] by simp
  show "checkModeRequirements HYBRID [demo_evidence 0.4] = \<lparr>allowed = True, reason = None\<rparr>"
    using checkModeRequirements_spec [of HYBRID "[demo_evidence 0.4]"] by simp
  show h: "Max (similarity_score ` set [demo_evidence 0.4, demo_evidence 0.35]) < 0.5"
    by (simp add: demo_evidence_def)
  show "checkModeRequirements INTERNAL [demo_evidence 0.4, demo_evidence 0.35] =
         \<lparr>allowed = False,
          reason = Some ''INTERNAL mode requires high-confidence evidence. Available evidence has low similarity scores.''\<rparr>"
    using h checkModeRequirements_spec [of INTERNAL "[demo_evidence 0.4, demo_evidence 0.35]"]
    by simp
  have "\<exists>e\<in>set [demo_evidence 0.4, demo_evidence 0.5]. similarity_score e \<ge> 0.5"
    by (simp add: demo_evidence_def)
  then show "allowed (checkModeRequirements INTERNAL [demo_evidence 0.4, demo_evidence 0.5])"
    using checkModeRequirements_spec [of INTERNAL "[demo_evidence 0.4, demo_evidence 0.5]"]
    by simp
qed


section \<open>Properties of \<^verbatim>\<open>chat\<close>\<close>

lemma logDecision_calls [simp]:
  "provider_calls (logDecision env w tenantId userId agentId act dec why inp out meta)
     = provider_calls w"
  by (simp add: logDecision_def split: option.splits)

lemma logDecision_agents [simp]:
  "agents (logDecision env w tenantId userId agentId act dec why inp out meta) = agents w"
  by (simp add: logDecision_def split: option.splits)

text \<open>
  Claim C1. On a chat turn whose agent is found and active: if \<open>kill_switch\<close> is set, the
  turn returns a response (not an error) with \<open>blocked = true\<close>, the kill-switch reason and
  \<open>tokensUsed = 0\<close>, and no call to the provider is made, whatever the message is; otherwise,
  if \<open>cost_used_today \<ge> cost_limit_daily\<close> (equality included), the turn returns such a
  response with the daily-cost-limit reason, again without any call to the provider.
\<close>

theorem chat_kill_switch_and_cost_limit:
  assumes "query_error env SelectAgent = None"
    and "filter (\<lambda>a. agent_id a = agentId \<and> agent_tenant_id a = tenantId \<and> is_active a)
           (agents w) = agent # others"
  shows "(kill_switch agent \<longrightarrow>
           (\<exists>w' r. chat env w msg agentId userId tenantId conversation = (w', Inr r)
              \<and> blocked r = Some True
              \<and> blockReason r = Some ''Agent kill switch is enabled''
              \<and> tokensUsed r = 0
              \<and> provider_calls w' = provider_calls w))
       \<and> (\<not> kill_switch agent \<and> cost_used_today agent \<ge> cost_limit_daily agent \<longrightarrow>
           (\<exists>w' r. chat env w msg agentId userId tenantId conversation = (w', Inr r)
              \<and> blocked r = Some True
              \<and> blockReason r = Some ''Daily cost limit exceeded''
              \<and> tokensUsed r = 0
              \<and> provider_calls w' = provider_calls w))"
  using assms by (simp add: chat_def)

theorem chat_kill_switch_and_cost_limit_witness:
  "cost_used_today demo_agent = cost_limit_daily demo_agent
   \<and> (\<exists>w' r. chat demo_env demo_world ''My SALARY and Billing'' ''a1'' ''u1'' ''t1'' None
                = (w', Inr r)
          \<and> blocked r = Some True
          \<and> blockReason r = Some ''Daily cost limit exceeded''
          \<and> tokensUsed r = 0
          \<and> provider_calls w' = provider_calls demo_world)
   \<and> (\<exists>w' r. chat demo_env (demo_world\<lparr>agents := [demo_agent\<lparr>kill_switch := True\<rparr>]\<rparr>)
                ''Hello'' ''a1'' ''u1'' ''t1'' None = (w', Inr r)
          \<and> blocked r = Some True
          \<and> blockReason r = Some ''Agent kill switch is enabled''
          \<and> tokensUsed r = 0
          \<and> provider_calls w' = provider_calls (demo_world\<lparr>agents := [demo_agent\<lparr>kill_switch := True\<rparr>]\<rparr>))"
proof (intro conjI)
  have q: "query_error demo_env SelectAgent = None"
    by (simp add: demo_env_def)
  have f1: "filter (\<lambda>a. agent_id a = ''a1'' \<and> agent_tenant_id a = ''t1'' \<and> is_active a)
              (agents demo_world) = demo_agent # []"
    by (simp add: demo_world_def demo_agent_def)
  have f2: "filter (\<lambda>a. agent_id a = ''a1'' \<and> agent_tenant_id a = ''t1'' \<and> is_active a)
              (agents (demo_world\<lparr>agents := [demo_agent\<lparr>kill_switch := True\<rparr>]\<rparr>))
            = demo_agent\<lparr>kill_switch := True\<rparr> # []"
    by (simp add: demo_world_def demo_agent_def)
  show "cost_used_today demo_agent = cost_limit_daily demo_agent"
    by (simp add: demo_agent_def)
  have c: "\<not> kill_switch demo_agent \<and> cost_used_today demo_agent \<ge> cost_limit_daily demo_agent"
    by (simp add: demo_agent_def)
  show "\<exists>w' r. chat demo_env demo_world ''My SALARY and Billing'' ''a1'' ''u1'' ''t1'' None
                = (w', Inr r)
          \<and> blocked r = Some True
          \<and> blockReason r = Some ''Daily cost limit exceeded''
          \<and> tokensUsed r = 0
          \<and> provider_calls w' = provider_calls demo_world"
    by (rule chat_kill_switch_and_cost_limit [OF q f1, THEN conjunct2, THEN mp, OF c])
  have k: "kill_switch (demo_agent\<lparr>kill_switch := True\<rparr>)"
    by simp
  show "\<exists>w' r. chat demo_env (demo_world\<lparr>agents := [demo_agent\<lparr>kill_switch := True\<rparr>]\<rparr>)
                ''Hello'' ''a1'' ''u1'' ''t1'' None = (w', Inr r)
          \<and> blocked r = Some True
          \<and> blockReason r = Some ''Agent kill switch is enabled''
          \<and> tokensUsed r = 0
          \<and> provider_calls w' = provider_calls (demo_world\<lparr>agents := [demo_agent\<lparr>kill_switch := True\<rparr>]\<rparr>)"
    by (rule chat_kill_switch_and_cost_limit [OF q f2, THEN conjunct1, THEN mp, OF k])
qed


section \<open>Properties of \<^verbatim>\<open>chatWithDocument\<close>\<close>

text \<open>
  Claim C10. \<open>chatWithDocument\<close> applies the kill-switch check and no other. For an active
  agent whose \<open>kill_switch\<close> is on, the turn is answered with the blocked response, the
  kill-switch reason and \<open>tokensUsed = 0\<close>, and nothing else happens: no call to the provider,
  no decision-log entry, no change to the agents table. For an active agent whose
  \<open>kill_switch\<close> is off it goes on to the completion call (made as soon as the client is
  obtained) whatever \<open>cost_used_today\<close>, the topic lists and the mode are, and a completion
  is returned as an unblocked response; it writes no decision-log entry and leaves the agents
  table, hence \<open>cost_used_today\<close>, as it was.
\<close>

theorem chatWithDocument_only_kill_switch:
  assumes "query_error env SelectAgent = None"
    and "filter (\<lambda>a. agent_id a = agentId \<and> agent_tenant_id a = tenantId \<and> is_active a)
           (agents w) = agent # others"
  shows "(kill_switch agent \<longrightarrow>
            chatWithDocument env w msg documentContent agentId userId tenantId =
              (w, Inr \<lparr>response = ''This agent is currently disabled.'',
                       conversationId = uuidv4 env, tokensUsed = 0, latencyMs = elapsed env,
                       evidence = None, blocked = Some True,
                       blockReason = Some ''Agent kill switch is enabled''\<rparr>))
       \<and> (\<not> kill_switch agent \<longrightarrow>
            decision_logs (fst (chatWithDocument env w msg documentContent agentId userId tenantId))
              = decision_logs w
          \<and> agents (fst (chatWithDocument env w msg documentContent agentId userId tenantId))
              = agents w
          \<and> (\<forall>client. getLLMClient env w tenantId = Inr client \<longrightarrow>
               provider_calls
                 (fst (chatWithDocument env w msg documentContent agentId userId tenantId))
               = provider_calls w @
                  [CompletionCall client
                     (completion_request agent
                        [(''system'',
                          (if system_prompt agent = [] then ''You are a helpful AI assistant.''
                           else system_prompt agent)
                          @ [CHR 0x0A, CHR 0x0A] @ ''## Uploaded Document Content'' @ [CHR 0x0A]
                          @ slice documentContent 0 10000),
                         (''user'', msg)])]
               \<and> (\<forall>completion.
                    completions_create env client
                      (completion_request agent
                         [(''system'',
                           (if system_prompt agent = [] then ''You are a helpful AI assistant.''
                            else system_prompt agent)
                           @ [CHR 0x0A, CHR 0x0A] @ ''## Uploaded Document Content'' @ [CHR 0x0A]
                           @ slice documentContent 0 10000),
                          (''user'', msg)]) = Inr completion \<longrightarrow>
                    (\<exists>r. snd (chatWithDocument env w msg documentContent agentId userId tenantId)
                            = Inr r
                       \<and> response r = response_text completion
                       \<and> tokensUsed r = tokens_of completion
                       \<and> blocked r = None \<and> blockReason r = None))))"
  using assms
  by (simp add: chatWithDocument_def Let_def split: sum.splits)

theorem chatWithDocument_only_kill_switch_witness:
  "cost_used_today demo_agent \<ge> cost_limit_daily demo_agent
   \<and> mode demo_agent = INTERNAL
   \<and> \<not> allowed (checkContract ''My SALARY and Billing'' demo_agent)
   \<and> decision_logs (fst (chatWithDocument demo_env demo_world ''My SALARY and Billing''
         ''Hello.'' ''a1'' ''u1'' ''t1'')) = decision_logs demo_world
   \<and> agents (fst (chatWithDocument demo_env demo_world ''My SALARY and Billing''
         ''Hello.'' ''a1'' ''u1'' ''t1'')) = agents demo_world
   \<and> provider_calls (fst (chatWithDocument demo_env demo_world ''My SALARY and Billing''
         ''Hello.'' ''a1'' ''u1'' ''t1''))
       = provider_calls demo_world @
          [CompletionCall \<lparr>apiKey = ''sk-env'', baseURL = None\<rparr>
             (completion_request demo_agent
                [(''system'',
                  (if system_prompt demo_agent = [] then ''You are a helpful AI assistant.''
                   else system_prompt demo_agent)
                  @ [CHR 0x0A, CHR 0x0A] @ ''## Uploaded Document Content'' @ [CHR 0x0A]
                  @ slice ''Hello.'' 0 10000),
                 (''user'', ''My SALARY and Billing'')])]
   \<and> (\<exists>r. snd (chatWithDocument demo_env demo_world ''My SALARY and Billing''
                 ''Hello.'' ''a1'' ''u1'' ''t1'') = Inr r
          \<and> response r = ''ok'' \<and> tokensUsed r = 1000
          \<and> blocked r = None \<and> blockReason r = None)
   \<and> chatWithDocument demo_env (demo_world\<lparr>agents := [demo_agent\<lparr>kill_switch := True\<rparr>]\<rparr>)
         ''Hello'' ''Hello.'' ''a1'' ''u1'' ''t1''
       = (demo_world\<lparr>agents := [demo_agent\<lparr>kill_switch := True\<rparr>]\<rparr>,
          Inr \<lparr>response = ''This agent is currently disabled.'',
               conversationId = ''uuid-1'', tokensUsed = 0, latencyMs = 7,
               evidence = None, blocked = Some True,
               blockReason = Some ''Agent kill switch is enabled''\<rparr>)"
proof -
  have q: "query_error demo_env SelectAgent = None"
    by (simp add: demo_env_def)
  have f: "filter (\<lambda>a. agent_id a = ''a1'' \<and> agent_tenant_id a = ''t1'' \<and> is_active a)
              (agents demo_world) = demo_agent # []"
    by (simp add: demo_world_def demo_agent_def)
  have f': "filter (\<lambda>a. agent_id a = ''a1'' \<and> agent_tenant_id a = ''t1'' \<and> is_active a)
              (agents (demo_world\<lparr>agents := [demo_agent\<lparr>kill_switch := True\<rparr>]\<rparr>))
            = demo_agent\<lparr>kill_switch := True\<rparr> # []"
    by (simp add: demo_world_def demo_agent_def)
  have k: "\<not> kill_switch demo_agent"
    by (simp add: demo_agent_def)
  have k': "kill_switch (demo_agent\<lparr>kill_switch := True\<rparr>)"
    by simp
  have c: "getLLMClient demo_env demo_world ''t1'' = Inr \<lparr>apiKey = ''sk-env'', baseURL = None\<rparr>"
    by (simp add: getLLMClient_def demo_env_def demo_world_def)
  have o: "completions_create demo_env \<lparr>apiKey = ''sk-env'', baseURL = None\<rparr> req
             = Inr \<lparr>completion_content = Some ''ok'', total_tokens = Some 1000\<rparr>" for req
    by (simp add: demo_env_def)
  have g1: "cost_used_today demo_agent \<ge> cost_limit_daily demo_agent"
    and g2: "mode demo_agent = INTERNAL"
    by (simp_all add: demo_agent_def)
  have b: "\<not> allowed (checkContract ''My SALARY and Billing'' demo_agent)"
    by (simp add: checkContract_def demo_agent_def lower_demo_message lower_demo_topics)
  note t = chatWithDocument_only_kill_switch [OF q f, of "''My SALARY and Billing''" "''Hello.''"
      "''u1''", THEN conjunct2, THEN mp, OF k]
  from t have t1: "decision_logs (fst (chatWithDocument demo_env demo_world ''My SALARY and Billing''
         ''Hello.'' ''a1'' ''u1'' ''t1'')) = decision_logs demo_world"
    by (rule conjunct1)
  from t have t2: "agents (fst (chatWithDocument demo_env demo_world ''My SALARY and Billing''
         ''Hello.'' ''a1'' ''u1'' ''t1'')) = agents demo_world"
    by (rule conjunct1 [OF conjunct2])
  note t3 = t [THEN conjunct2, THEN conjunct2, THEN spec, THEN mp, OF c]
  note t4 = t3 [THEN conjunct2, THEN spec, THEN mp, OF o]
  have t5: "\<exists>r. snd (chatWithDocument demo_env demo_world ''My SALARY and Billing''
                 ''Hello.'' ''a1'' ''u1'' ''t1'') = Inr r
          \<and> response r = ''ok'' \<and> tokensUsed r = 1000
          \<and> blocked r = None \<and> blockReason r = None"
    using t4 by (simp add: response_text_def tokens_of_def)
  have u: "uuidv4 demo_env = ''uuid-1''" "elapsed demo_env = 7"
    by (simp_all add: demo_env_def)
  note s = chatWithDocument_only_kill_switch [OF q f', of "''Hello''" "''Hello.''" "''u1''",
      THEN conjunct1, THEN mp, OF k']
  have t6: "chatWithDocument demo_env (demo_world\<lparr>agents := [demo_agent\<lparr>kill_switch := True\<rparr>]\<rparr>)
         ''Hello'' ''Hello.'' ''a1'' ''u1'' ''t1''
       = (demo_world\<lparr>agents := [demo_agent\<lparr>kill_switch := True\<rparr>]\<rparr>,
          Inr \<lparr>response = ''This agent is currently disabled.'',
               conversationId = ''uuid-1'', tokensUsed = 0, latencyMs = 7,
               evidence = None, blocked = Some True,
               blockReason = Some ''Agent kill switch is enabled''\<rparr>)"
    using s by (simp only: u)
  show ?thesis
    by (intro conjI) (rule g1, rule g2, rule b, rule t1, rule t2, rule t3 [THEN conjunct1],
        rule t5, rule t6)
qed

section \<open>Properties of \<^verbatim>\<open>retrieveContext\<close>\<close>

lemma linked_collections_calls [simp]:
  "linked_collections (w\<lparr>provider_calls := c\<rparr>) agentId tenantId
     = linked_collections w agentId tenantId"
  by (simp add: linked_collections_def)

lemma candidate_rows_calls [simp]:
  "candidate_rows (w\<lparr>provider_calls := c\<rparr>) collectionIds = candidate_rows w collectionIds"
  by (simp add: candidate_rows_def)

lemma slice_prefix: "0 \<le> k \<Longrightarrow> slice xs 0 k = take (nat k) xs"
  by (simp add: slice_nonneg)

lemma join_Nil_iff: "xs = [] \<Longrightarrow> join sep xs = []"
  by simp

text \<open>The result of \<open>retrieveContext\<close> on its main path, without the early returns.\<close>

lemma retrieveContext_main:
  assumes "embeddings_create env (slice query 0 8000) = Inr q"
    and "query_error env SelectCollections = None"
    and "query_error env SelectEmbeddings = None"
  shows "snd (retrieveContext env w query agentId tenantId topK) =
     (let kept = filter (\<lambda>c. similarity c > 0.3)
            (slice (sort_key (\<lambda>c. - similarity c)
               (map (score_row q)
                  (candidate_rows w (linked_collections w agentId tenantId)))) 0 topK)
      in (join context_separator
            (map (\<lambda>c. source_block (documentName c) (documentVersion c) (chunkBody c)) kept),
          map evidence_of kept))"
proof -
  let ?cids = "linked_collections w agentId tenantId"
  let ?rows = "candidate_rows w ?cids"
  let ?sorted = "sort_key (\<lambda>c. - similarity c) (map (score_row q) ?rows)"
  have rows_empty: "?sorted = []" if "?rows = []"
    using that by simp
  have cids_empty: "?rows = []" if "?cids = []"
    using that by (simp add: candidate_rows_def)
  have slice_empty: "slice ([] :: ScoredChunk list) 0 topK = []"
    by (simp add: slice_def)
  show ?thesis
    using assms cids_empty rows_empty slice_empty
    by (auto simp: retrieveContext_def generateEmbedding_def Let_def)
qed

lemma retrieveContext_failed:
  assumes "(\<exists>e. embeddings_create env (slice query 0 8000) = Inl e)
     \<or> query_error env SelectCollections \<noteq> None \<or> query_error env SelectEmbeddings \<noteq> None"
  shows "snd (retrieveContext env w query agentId tenantId topK) = ([], [])"
  using assms
  by (auto simp: retrieveContext_def generateEmbedding_def Let_def split: sum.splits option.splits)

lemma slice_is_prefix: "\<exists>n. slice xs 0 k = take n xs"
  by (auto simp: slice_def slice_index_def Let_def)

lemma similarity_score_evidence_of [simp]: "similarity_score (evidence_of c) = similarity c"
  by (simp add: evidence_of_def)

lemma kept_sorted:
  "sorted_wrt (\<lambda>a b. similarity_score a \<ge> similarity_score b)
     (map evidence_of
        (filter P (slice (sort_key (\<lambda>c. - similarity c) xs) 0 k)))"
proof -
  obtain n where n: "slice (sort_key (\<lambda>c. - similarity c) xs) 0 k
      = take n (sort_key (\<lambda>c. - similarity c) xs)"
    using slice_is_prefix by blast
  have "sorted (map (\<lambda>c. - similarity c) (sort_key (\<lambda>c. - similarity c) xs))"
    by (rule sorted_sort_key)
  then have "sorted (take n (map (\<lambda>c. - similarity c) (sort_key (\<lambda>c. - similarity c) xs)))"
    by (rule sorted_wrt_take)
  then have "sorted (map (\<lambda>c. - similarity c) (take n (sort_key (\<lambda>c. - similarity c) xs)))"
    by (simp add: take_map)
  then have "sorted (map (\<lambda>c. - similarity c)
      (filter P (take n (sort_key (\<lambda>c. - similarity c) xs))))"
    by (rule sorted_filter)
  then show ?thesis
    by (simp add: n sorted_map sorted_wrt_map)
qed

text \<open>
  Claim C4, as amended. \<open>retrieveContext\<close> sorts the scored candidates descending by cosine
  similarity (a stable sort), takes the first \<open>topK\<close> of them (for \<open>topK \<ge> 0\<close>), and keeps of
  these exactly the ones whose similarity is strictly above \<open>0.3\<close>: every evidence item scores
  above \<open>0.3\<close>, the evidence is in descending order of score and has at most \<open>topK\<close> items,
  and when nothing is kept both the context and the evidence list are empty.
\<close>

theorem retrieveContext_top_k_floor:
  "(\<forall>e\<in>set (snd (snd (retrieveContext env w query agentId tenantId topK))).
       similarity_score e > 0.3)
   \<and> (0 \<le> topK \<longrightarrow>
        int (length (snd (snd (retrieveContext env w query agentId tenantId topK)))) \<le> topK)
   \<and> sorted_wrt (\<lambda>a b. similarity_score a \<ge> similarity_score b)
        (snd (snd (retrieveContext env w query agentId tenantId topK)))
   \<and> (snd (snd (retrieveContext env w query agentId tenantId topK)) = [] \<longrightarrow>
        fst (snd (retrieveContext env w query agentId tenantId topK)) = [])
   \<and> (embeddings_create env (slice query 0 8000) = Inr q
        \<and> query_error env SelectCollections = None
        \<and> query_error env SelectEmbeddings = None \<and> 0 \<le> topK \<longrightarrow>
        snd (retrieveContext env w query agentId tenantId topK) =
          (let ranked = sort_key (\<lambda>c. - similarity c)
                 (map (score_row q)
                    (candidate_rows w (linked_collections w agentId tenantId)));
               kept = filter (\<lambda>c. similarity c > 0.3) (take (nat topK) ranked)
           in (join context_separator
                 (map (\<lambda>c. source_block (documentName c) (documentVersion c) (chunkBody c))
                    kept),
               map evidence_of kept)))"
proof -
  let ?R = "snd (retrieveContext env w query agentId tenantId topK)"
  have general: "(\<forall>e\<in>set (snd ?R). similarity_score e > 0.3)
     \<and> (0 \<le> topK \<longrightarrow> int (length (snd ?R)) \<le> topK)
     \<and> sorted_wrt (\<lambda>a b. similarity_score a \<ge> similarity_score b) (snd ?R)
     \<and> (snd ?R = [] \<longrightarrow> fst ?R = [])"
  proof (cases "(\<exists>e. embeddings_create env (slice query 0 8000) = Inl e)
     \<or> query_error env SelectCollections \<noteq> None \<or> query_error env SelectEmbeddings \<noteq> None")
    case True
    from retrieveContext_failed [OF this] show ?thesis by simp
  next
    case False
    then obtain q' where q': "embeddings_create env (slice query 0 8000) = Inr q'"
      and c: "query_error env SelectCollections = None"
      and e: "query_error env SelectEmbeddings = None"
      by (cases "embeddings_create env (slice query 0 8000)") auto
    let ?ranked = "sort_key (\<lambda>c. - similarity c)
        (map (score_row q') (candidate_rows w (linked_collections w agentId tenantId)))"
    let ?kept = "filter (\<lambda>c. similarity c > 0.3) (slice ?ranked 0 topK)"
    have R: "?R = (join context_separator
            (map (\<lambda>c. source_block (documentName c) (documentVersion c) (chunkBody c)) ?kept),
          map evidence_of ?kept)"
      using retrieveContext_main [OF q' c e] by (simp add: Let_def)
    have l1: "length ?kept \<le> length (slice ?ranked 0 topK)" by simp
    have l2: "0 \<le> topK \<longrightarrow> length (slice ?ranked 0 topK) \<le> nat topK"
      by (simp add: slice_prefix)
    have len: "0 \<le> topK \<longrightarrow> int (length ?kept) \<le> topK"
    proof
      assume k: "0 \<le> topK"
      with l2 have "length (slice ?ranked 0 topK) \<le> nat topK" by (simp only:)
      with l1 have "length ?kept \<le> nat topK" by (rule order_trans)
      with k show "int (length ?kept) \<le> topK" by linarith
    qed
    show ?thesis
      using len kept_sorted [of "\<lambda>c. similarity c > 0.3" "map (score_row q')
          (candidate_rows w (linked_collections w agentId tenantId))" topK]
      by (simp add: R)
  qed
  have main: "?R =
          (let ranked = sort_key (\<lambda>c. - similarity c)
                 (map (score_row q)
                    (candidate_rows w (linked_collections w agentId tenantId)));
               kept = filter (\<lambda>c. similarity c > 0.3) (take (nat topK) ranked)
           in (join context_separator
                 (map (\<lambda>c. source_block (documentName c) (documentVersion c) (chunkBody c))
                    kept),
               map evidence_of kept))"
    if "embeddings_create env (slice query 0 8000) = Inr q
        \<and> query_error env SelectCollections = None
        \<and> query_error env SelectEmbeddings = None \<and> 0 \<le> topK"
    using that retrieveContext_main [of env query q w agentId tenantId topK]
    by (simp add: Let_def slice_prefix)
  from general main show ?thesis by blast
qed

lemma sqrt_25: "sqrt 25 = 5"
  by (rule real_sqrt_unique) simp_all

lemma sqrt_100: "sqrt 100 = 10"
  by (rule real_sqrt_unique) simp_all

lemma rag_scores:
  "cosineSimilarity [1, 0, 0, 0] [3, 9, 3, 1] = 3 / 10"
  "cosineSimilarity [1, 0, 0, 0] [4, 3, 0, 0] = 4 / 5"
  "cosineSimilarity [1, 0, 0, 0] [3, 4, 0, 0] = 3 / 5"
  "cosineSimilarity [1, 0, 0, 0] [1, 0, 0, 0] = 1"
  by (simp_all add: cosineSimilarity_def sqrt_25 sqrt_100)

lemma rag_collections: "linked_collections rag_world ''a1'' ''t1'' = [''c1'']"
  by (simp add: linked_collections_def rag_world_def demo_world_def)

lemma rag_candidates:
  "candidate_rows rag_world [''c1''] =
     [(rag_fragment 0 ''alpha'' [3, 9, 3, 1], rag_document),
      (rag_fragment 1 ''beta'' [4, 3, 0, 0], rag_document),
      (rag_fragment 2 ''gamma'' [3, 4, 0, 0], rag_document),
      (rag_fragment 3 ''delta'' [1, 0, 0, 0], rag_document)]"
  by (simp add: candidate_rows_def rag_world_def demo_world_def rag_fragment_def rag_document_def)

lemma rag_scored:
  "map (score_row [1, 0, 0, 0]) (candidate_rows rag_world [''c1'']) =
     [rag_chunk 0 ''alpha'' (3 / 10), rag_chunk 1 ''beta'' (4 / 5),
      rag_chunk 2 ''gamma'' (3 / 5), rag_chunk 3 ''delta'' 1]"
  by (simp add: rag_candidates score_row_def rag_scores rag_chunk_def rag_fragment_def
      rag_document_def)

lemma rag_similarity [simp]: "similarity (rag_chunk i body s) = s"
  by (simp add: rag_chunk_def)

lemma rag_ranked:
  "sort_key (\<lambda>c. - similarity c)
     [rag_chunk 0 ''alpha'' (3 / 10), rag_chunk 1 ''beta'' (4 / 5),
      rag_chunk 2 ''gamma'' (3 / 5), rag_chunk 3 ''delta'' 1]
   = [rag_chunk 3 ''delta'' 1, rag_chunk 1 ''beta'' (4 / 5), rag_chunk 2 ''gamma'' (3 / 5),
      rag_chunk 0 ''alpha'' (3 / 10)]"
  by simp

lemma rag_env_ok:
  "embeddings_create rag_env (slice ''q'' 0 8000) = Inr [1, 0, 0, 0]"
  "query_error rag_env SelectCollections = None"
  "query_error rag_env SelectEmbeddings = None"
  by (simp_all add: rag_env_def demo_env_def)

lemma rag_kept:
  "snd (retrieveContext rag_env rag_world ''q'' ''a1'' ''t1'' topK) =
     (let kept = filter (\<lambda>c. similarity c > 0.3)
            (slice [rag_chunk 3 ''delta'' 1, rag_chunk 1 ''beta'' (4 / 5),
                    rag_chunk 2 ''gamma'' (3 / 5), rag_chunk 0 ''alpha'' (3 / 10)] 0 topK)
      in (join context_separator
            (map (\<lambda>c. source_block (documentName c) (documentVersion c) (chunkBody c)) kept),
          map evidence_of kept))"
  using retrieveContext_main [OF rag_env_ok, of rag_world "''a1''" "''t1''" topK]
  by (simp only: rag_collections rag_scored rag_ranked)

lemma chunk_text_evidence_of [simp]: "chunk_text (evidence_of c) = chunkBody c"
  by (simp add: evidence_of_def)

lemma rag_chunkBody [simp]: "chunkBody (rag_chunk i body s) = body"
  by (simp add: rag_chunk_def)

text \<open>
  Claim C4 as stated fails: a fragment whose similarity is exactly \<open>0.3\<close> is among the first
  five and is discarded all the same; and with \<open>topK = -1\<close> the \<^verbatim>\<open>slice\<close> keeps all but the
  last candidate, three evidence items.
\<close>

theorem retrieveContext_floor_counterexample:
  "cosineSimilarity [1, 0, 0, 0] [3, 9, 3, 1] = 3 / 10
   \<and> map chunk_text (snd (snd (retrieveContext rag_env rag_world ''q'' ''a1'' ''t1'' 5)))
       = [''delta'', ''beta'', ''gamma'']
   \<and> \<not> int (length (snd (snd (retrieveContext rag_env rag_world ''q'' ''a1'' ''t1'' (- 1)))))
         \<le> - 1"
proof (intro conjI)
  show "cosineSimilarity [1, 0, 0, 0] [3, 9, 3, 1] = 3 / 10"
    by (rule rag_scores)
  show "map chunk_text (snd (snd (retrieveContext rag_env rag_world ''q'' ''a1'' ''t1'' 5)))
       = [''delta'', ''beta'', ''gamma'']"
    by (simp add: rag_kept slice_def slice_index_def Let_def)
  show "\<not> int (length (snd (snd (retrieveContext rag_env rag_world ''q'' ''a1'' ''t1'' (- 1)))))
         \<le> - 1"
    by (simp add: rag_kept slice_def slice_index_def Let_def)
qed

theorem retrieveContext_top_k_floor_witness:
  "embeddings_create rag_env (slice ''q'' 0 8000) = Inr [1, 0, 0, 0]
   \<and> query_error rag_env SelectCollections = None
   \<and> query_error rag_env SelectEmbeddings = None \<and> (0::int) \<le> 2
   \<and> snd (retrieveContext rag_env rag_world ''q'' ''a1'' ''t1'' 2) =
       (join context_separator
          [source_block ''Handbook'' 1 ''delta'', source_block ''Handbook'' 1 ''beta''],
        [evidence_of (rag_chunk 3 ''delta'' 1), evidence_of (rag_chunk 1 ''beta'' (4 / 5))])"
proof -
  have h: "embeddings_create rag_env (slice ''q'' 0 8000) = Inr [1, 0, 0, 0]
     \<and> query_error rag_env SelectCollections = None
     \<and> query_error rag_env SelectEmbeddings = None \<and> (0::int) \<le> 2"
    by (simp add: rag_env_ok)
  note t = retrieveContext_top_k_floor [of rag_env rag_world "''q''" "''a1''" "''t1''" 2 "[1, 0, 0, 0]"]
  from t [THEN conjunct2, THEN conjunct2, THEN conjunct2, THEN conjunct2, THEN mp, OF h]
  have "snd (retrieveContext rag_env rag_world ''q'' ''a1'' ''t1'' 2) =
       (join context_separator
          [source_block ''Handbook'' 1 ''delta'', source_block ''Handbook'' 1 ''beta''],
        [evidence_of (rag_chunk 3 ''delta'' 1), evidence_of (rag_chunk 1 ''beta'' (4 / 5))])"
    by (simp add: rag_collections rag_scored rag_ranked rag_chunk_def)
  with h show ?thesis by (simp only: simp_thms)
qed

section \<open>The two retrieval paths\<close>










section \<open>Properties of \<^verbatim>\<open>processDocument\<close>\<close>

lemma generateEmbedding_tables [simp]:
  "documents (fst (generateEmbedding env w t)) = documents w"
  "embeddings (fst (generateEmbedding env w t)) = embeddings w"
  by (simp_all add: generateEmbedding_def Let_def split: sum.splits)

lemma generateEmbedding_result:
  "snd (generateEmbedding env w t) =
     (case embeddings_create env (slice t 0 8000) of
        Inl e \<Rightarrow> Inl (Error (''Failed to generate embedding: '' @ err_message e))
      | Inr v \<Rightarrow> Inr v)"
  by (simp add: generateEmbedding_def Let_def split: sum.splits)

lemma embed_chunks_documents [simp]:
  "documents (embed_chunks env w docId i chunks) = documents w"
proof (induction chunks arbitrary: w i)
  case Nil
  show ?case by simp
next
  case (Cons chunk chunks)
  obtain w' r where g: "generateEmbedding env w chunk = (w', r)"
    by (cases "generateEmbedding env w chunk")
  then have "documents w' = documents w"
    using generateEmbedding_tables(1) [of env w chunk] by simp
  with g Cons show ?case
    by (simp split: sum.splits option.splits)
qed

lemma embed_chunks_embeddings:
  "\<exists>new. embeddings (embed_chunks env w docId i chunks) = embeddings w @ new
     \<and> (\<forall>r\<in>set new. emb_document_id r = docId \<and> emb_chunk_text r \<in> set chunks
           \<and> embeddings_create env (slice (emb_chunk_text r) 0 8000) = Inr (emb_embedding r))"
proof (induction chunks arbitrary: w i)
  case Nil
  show ?case by simp
next
  case (Cons chunk chunks)
  obtain w' r where g: "generateEmbedding env w chunk = (w', r)"
    by (cases "generateEmbedding env w chunk")
  then have e: "embeddings w' = embeddings w"
    using generateEmbedding_tables(2) [of env w chunk] by simp
  from g have res: "r = (case embeddings_create env (slice chunk 0 8000) of
        Inl e \<Rightarrow> Inl (Error (''Failed to generate embedding: '' @ err_message e))
      | Inr v \<Rightarrow> Inr v)"
    using generateEmbedding_result [of env w chunk] by simp
  show ?case
  proof (cases r)
    case (Inl err)
    with g have "embed_chunks env w docId i (chunk # chunks)
        = embed_chunks env w' docId (i + 1) chunks"
      by simp
    with Cons.IH [of w' "i + 1"] e show ?thesis by auto
  next
    case (Inr v)
    with res have v: "embeddings_create env (slice chunk 0 8000) = Inr v"
      by (simp split: sum.splits)
    show ?thesis
    proof (cases "query_error env (InsertEmbedding i)")
      case (Some err)
      with g Inr have "embed_chunks env w docId i (chunk # chunks)
          = embed_chunks env w' docId (i + 1) chunks"
        by simp
      with Cons.IH [of w' "i + 1"] e show ?thesis by auto
    next
      case None
      let ?row = "\<lparr>emb_document_id = docId, emb_chunk_index = i, emb_chunk_text = chunk,
                      emb_embedding = v\<rparr>"
      let ?w = "w'\<lparr>embeddings := embeddings w' @ [?row]\<rparr>"
      from g Inr None have "embed_chunks env w docId i (chunk # chunks)
          = embed_chunks env ?w docId (i + 1) chunks"
        by simp
      moreover from Cons.IH [of ?w "i + 1"] obtain new where
        n: "embeddings (embed_chunks env ?w docId (i + 1) chunks) = embeddings ?w @ new"
        and p: "\<forall>r\<in>set new. emb_document_id r = docId \<and> emb_chunk_text r \<in> set chunks
           \<and> embeddings_create env (slice (emb_chunk_text r) 0 8000) = Inr (emb_embedding r)"
        by blast
      ultimately have "embeddings (embed_chunks env w docId i (chunk # chunks))
          = embeddings w @ (?row # new)"
        using e by simp
      moreover have "\<forall>r\<in>set (?row # new). emb_document_id r = docId
           \<and> emb_chunk_text r \<in> set (chunk # chunks)
           \<and> embeddings_create env (slice (emb_chunk_text r) 0 8000) = Inr (emb_embedding r)"
        using p v by auto
      ultimately show ?thesis by blast
    qed
  qed
qed

lemma set_tables [simp]:
  "embeddings (set_status w docId st) = embeddings w"
  "embeddings (set_failed w docId m) = embeddings w"
  "documents (delete_embeddings w docId) = documents w"
  "map doc_id (documents (set_status w docId st)) = map doc_id (documents w)"
  "map doc_id (documents (set_failed w docId m)) = map doc_id (documents w)"
  by (simp_all add: set_status_def set_failed_def delete_embeddings_def comp_def)

lemma documents_set_failed:
  "documents (set_failed w docId m) =
     map (\<lambda>d. if doc_id d = docId then d\<lparr>status := failed, error_message := Some m\<rparr> else d)
       (documents w)"
  by (simp add: set_failed_def)

lemma documents_set_status:
  "documents (set_status w docId st) =
     map (\<lambda>d. if doc_id d = docId then d\<lparr>status := st\<rparr> else d) (documents w)"
  by (simp add: set_status_def)

lemma set_failed_status:
  assumes "d \<in> set (documents (set_failed w docId m))" and "doc_id d = docId"
  shows "status d = failed \<and> error_message d = Some m"
proof -
  from assms(1)
  have "d \<in> (\<lambda>d. if doc_id d = docId then d\<lparr>status := failed, error_message := Some m\<rparr> else d)
          ` set (documents w)"
    by (simp only: documents_set_failed set_map)
  then obtain x where
    "d = (if doc_id x = docId then x\<lparr>status := failed, error_message := Some m\<rparr> else x)"
    by (rule imageE)
  with assms(2) show ?thesis
    by (cases "doc_id x = docId") simp_all
qed

lemma set_status_status:
  assumes "d \<in> set (documents (set_status w docId st))" and "doc_id d = docId"
  shows "status d = st"
proof -
  from assms(1)
  have "d \<in> (\<lambda>d. if doc_id d = docId then d\<lparr>status := st\<rparr> else d) ` set (documents w)"
    by (simp only: documents_set_status set_map)
  then obtain x where "d = (if doc_id x = docId then x\<lparr>status := st\<rparr> else x)"
    by (rule imageE)
  with assms(2) show ?thesis
    by (cases "doc_id x = docId") simp_all
qed

lemma processDocument_failed:
  assumes "processDocument env w docId = Some (w', Inl e)" and "query_error env SetFailed = None"
    and "query_error env Connect = None"
  shows "\<exists>w0. process_steps env w docId = Some (w0, Inl e)
     \<and> w' = set_failed w0 docId (err_message e)"
proof (cases "process_steps env w docId")
  case None
  with assms show ?thesis by (simp add: processDocument_def)
next
  case (Some p)
  obtain w0 r where p: "p = (w0, r)" by (cases p)
  show ?thesis
  proof (cases r)
    case (Inl e0)
    with Some p assms show ?thesis by (auto simp: processDocument_def)
  next
    case (Inr u)
    with Some p assms show ?thesis by (simp add: processDocument_def)
  qed
qed

lemma processDocument_succeeded:
  assumes "processDocument env w docId = Some (w', Inr u)"
  shows "process_steps env w docId = Some (w', Inr u)"
proof -
  from assms have conn: "query_error env Connect = None"
    by (cases "query_error env Connect") (simp_all add: processDocument_def)
  show ?thesis
  proof (cases "process_steps env w docId")
    case None
    with assms conn show ?thesis by (simp add: processDocument_def)
  next
    case (Some p)
    obtain w0 r where p: "p = (w0, r)" by (cases p)
    show ?thesis
    proof (cases r)
      case (Inl e0)
      with Some p assms conn show ?thesis
        by (simp add: processDocument_def split: option.splits)
    next
      case (Inr u0)
      with Some p assms conn show ?thesis by (simp add: processDocument_def)
    qed
  qed
qed

lemma process_steps_doc_ids:
  assumes "process_steps env w docId = Some (w0, r)"
  shows "map doc_id (documents w0) = map doc_id (documents w)"
  using assms
  by (simp add: process_steps_def Let_def
      split: option.splits list.splits sum.splits if_splits)
     (auto simp: set_tables)

lemma process_steps_success:
  assumes "process_steps env w docId = Some (w', Inr u)"
  shows "\<exists>doc rest body chunks.
      filter (\<lambda>d. doc_id d = docId) (documents w) = doc # rest
      \<and> extractText env (file_path doc) (mime_type doc) = Inr body
      \<and> chunkText body (CHUNK_SIZE env) (CHUNK_OVERLAP env) = Some chunks
      \<and> w' = set_status
          (embed_chunks env (delete_embeddings (set_status w docId processing) docId) docId 0
             chunks) docId completed"
  using assms
  by (simp add: process_steps_def Let_def
      split: option.splits list.splits sum.splits if_splits)

text \<open>
  Claim C6, as amended. When \<open>processDocument\<close> fails after it has obtained its connection,
  and the update that records the failure succeeds, every document with the given id has
  status \<open>failed\<close> and the message of the error as its \<open>error_message\<close>. The failure handler
  deletes no fragment: the fragment store is as the \<^verbatim>\<open>try\<close> block (\<open>process_steps\<close>) left it
  when the error was thrown. It is an attempt that reaches its write phase that deletes: after
  an attempt that succeeds, the fragments of other documents are as before, and every fragment
  of this document was written by this attempt, from a chunk of the text it extracted.
\<close>

theorem processDocument_failure_and_replacement:
  "(processDocument env w docId = Some (w', Inl e) \<and> query_error env Connect = None
      \<and> query_error env SetFailed = None \<longrightarrow>
      map doc_id (documents w') = map doc_id (documents w)
      \<and> (\<forall>d\<in>set (documents w'). doc_id d = docId \<longrightarrow>
            status d = failed \<and> error_message d = Some (err_message e))
      \<and> (\<exists>w0. process_steps env w docId = Some (w0, Inl e)
            \<and> embeddings w' = embeddings w0))
   \<and> (processDocument env w docId = Some (w', Inr u) \<longrightarrow>
      (\<exists>doc rest body chunks new.
         map doc_id (documents w') = map doc_id (documents w)
         \<and> filter (\<lambda>d. doc_id d = docId) (documents w) = doc # rest
         \<and> extractText env (file_path doc) (mime_type doc) = Inr body
         \<and> chunkText body (CHUNK_SIZE env) (CHUNK_OVERLAP env) = Some chunks
         \<and> embeddings w' = filter (\<lambda>r. emb_document_id r \<noteq> docId) (embeddings w) @ new
         \<and> (\<forall>r\<in>set new. emb_document_id r = docId \<and> emb_chunk_text r \<in> set chunks)
         \<and> (\<forall>d\<in>set (documents w'). doc_id d = docId \<longrightarrow> status d = completed)))"
proof (intro conjI impI)
  assume a: "processDocument env w docId = Some (w', Inl e) \<and> query_error env Connect = None
      \<and> query_error env SetFailed = None"
  then obtain w0 where s: "process_steps env w docId = Some (w0, Inl e)"
    and w': "w' = set_failed w0 docId (err_message e)"
    using processDocument_failed by blast
  show "map doc_id (documents w') = map doc_id (documents w)"
    using process_steps_doc_ids [OF s] w' by (simp add: set_tables)
  show "\<forall>d\<in>set (documents w'). doc_id d = docId \<longrightarrow>
            status d = failed \<and> error_message d = Some (err_message e)"
    using set_failed_status [of _ w0 docId "err_message e"] w' by blast
  have "embeddings w' = embeddings w0"
    using w' by (simp add: set_tables)
  with s show "\<exists>w0. process_steps env w docId = Some (w0, Inl e)
            \<and> embeddings w' = embeddings w0"
    by blast
next
  assume "processDocument env w docId = Some (w', Inr u)"
  then have ps: "process_steps env w docId = Some (w', Inr u)"
    by (rule processDocument_succeeded)
  note ids = process_steps_doc_ids [OF ps]
  from process_steps_success [OF ps] obtain doc rest body chunks where
    f: "filter (\<lambda>d. doc_id d = docId) (documents w) = doc # rest"
    and x: "extractText env (file_path doc) (mime_type doc) = Inr body"
    and c: "chunkText body (CHUNK_SIZE env) (CHUNK_OVERLAP env) = Some chunks"
    and w': "w' = set_status
          (embed_chunks env (delete_embeddings (set_status w docId processing) docId) docId 0
             chunks) docId completed"
    by blast
  let ?w1 = "delete_embeddings (set_status w docId processing) docId"
  from embed_chunks_embeddings [of env ?w1 docId 0 chunks] obtain new where
    n: "embeddings (embed_chunks env ?w1 docId 0 chunks) = embeddings ?w1 @ new"
    and p: "\<forall>r\<in>set new. emb_document_id r = docId \<and> emb_chunk_text r \<in> set chunks
           \<and> embeddings_create env (slice (emb_chunk_text r) 0 8000) = Inr (emb_embedding r)"
    by blast
  have "embeddings ?w1 = filter (\<lambda>r. emb_document_id r \<noteq> docId) (embeddings w)"
    by (simp add: delete_embeddings_def set_tables)
  with n w' have e: "embeddings w' = filter (\<lambda>r. emb_document_id r \<noteq> docId) (embeddings w) @ new"
    by (simp add: set_tables)
  have st: "\<forall>d\<in>set (documents w'). doc_id d = docId \<longrightarrow> status d = completed"
    using set_status_status [of _ _ docId completed] w' by blast
  from p have p': "\<forall>r\<in>set new. emb_document_id r = docId \<and> emb_chunk_text r \<in> set chunks"
    by blast
  from ids f x c e p' st
  show "\<exists>doc rest body chunks new.
         map doc_id (documents w') = map doc_id (documents w)
         \<and> filter (\<lambda>d. doc_id d = docId) (documents w) = doc # rest
         \<and> extractText env (file_path doc) (mime_type doc) = Inr body
         \<and> chunkText body (CHUNK_SIZE env) (CHUNK_OVERLAP env) = Some chunks
         \<and> embeddings w' = filter (\<lambda>r. emb_document_id r \<noteq> docId) (embeddings w) @ new
         \<and> (\<forall>r\<in>set new. emb_document_id r = docId \<and> emb_chunk_text r \<in> set chunks)
         \<and> (\<forall>d\<in>set (documents w'). doc_id d = docId \<longrightarrow> status d = completed)"
    by blast
qed

lemma hello_chunks: "chunkText ''Hello.'' 500 100 = Some [''Hello.'']"
  by code_simp

lemma hello_trim: "trim ''Hello.'' = ''Hello.''"
  by code_simp

lemma txt_lower: "toLowerCase ''.txt'' = ''.txt''"
  by code_simp

lemma hello_slice: "slice ''Hello.'' 0 8000 = ''Hello.''"
  by (simp add: slice_def slice_index_def)

lemma doc_world_extract:
  "extractText demo_env ''/data/handbook.txt'' ''text/plain'' = Inr ''Hello.''"
  "extractText fail_env ''/data/handbook.txt'' ''text/plain'' = Inr ''Hello.''"
  by (simp_all add: extractText_def demo_env_def fail_env_def txt_lower)

lemma doc_world_tables:
  "documents doc_world = [rag_document\<lparr>status := pending\<rparr>]"
  "embeddings doc_world = [rag_fragment 0 ''stale'' [0, 1]]"
  by (simp_all add: doc_world_def)

lemma doc_fields:
  "doc_id rag_document = ''d1''" "file_path rag_document = ''/data/handbook.txt''"
  "mime_type rag_document = ''text/plain''"
  by (simp_all add: rag_document_def)

lemma fail_env_fields:
  "query_error fail_env Connect = None"
  "query_error fail_env SelectDocument = None" "query_error fail_env SetProcessing = None"
  "query_error fail_env DeleteEmbeddings = None" "query_error fail_env (InsertEmbedding i) = None"
  "query_error fail_env SetCompleted = Some (Error ''connection lost'')"
  "query_error fail_env SetFailed = None"
  "CHUNK_SIZE fail_env = 500" "CHUNK_OVERLAP fail_env = 100"
  "embeddings_create fail_env t = Inr [1, 0]"
  by (simp_all add: fail_env_def demo_env_def)

lemma demo_env_fields:
  "query_error demo_env q = None"
  "CHUNK_SIZE demo_env = 500" "CHUNK_OVERLAP demo_env = 100"
  "embeddings_create demo_env t = Inr [1, 0]"
  by (simp_all add: demo_env_def)

lemma fail_run:
  "map_option (\<lambda>(w', r). (r, documents w', embeddings w'))
     (processDocument fail_env doc_world ''d1'')
   = Some (Inl (Error ''connection lost''),
           [rag_document\<lparr>status := failed, error_message := Some ''connection lost''\<rparr>],
           [rag_fragment 0 ''Hello.'' [1, 0]])"
  by (simp add: processDocument_def process_steps_def Let_def doc_world_tables doc_fields
      fail_env_fields doc_world_extract hello_chunks hello_trim hello_slice
      set_status_def set_failed_def delete_embeddings_def generateEmbedding_def
      rag_fragment_def)

lemma success_run:
  "map_option (\<lambda>(w', r). (r, documents w', embeddings w'))
     (processDocument demo_env doc_world ''d1'')
   = Some (Inr (), [rag_document\<lparr>status := completed\<rparr>], [rag_fragment 0 ''Hello.'' [1, 0]])"
  by (simp add: processDocument_def process_steps_def Let_def doc_world_tables doc_fields
      demo_env_fields doc_world_extract hello_chunks hello_trim hello_slice
      set_status_def set_failed_def delete_embeddings_def generateEmbedding_def
      rag_fragment_def)

lemma offline_run:
  "map_option (\<lambda>(w', r). (r, documents w', embeddings w'))
     (processDocument offline_env doc_world ''d1'')
   = Some (Inl (Error ''connection refused''), [rag_document\<lparr>status := pending\<rparr>],
           [rag_fragment 0 ''stale'' [0, 1]])"
  by (simp add: processDocument_def offline_env_def doc_world_tables)

lemma dropped_run:
  "map_option (\<lambda>(w', r). (r, documents w', embeddings w'))
     (processDocument dropped_env doc_world ''d1'')
   = Some (Inl (Error ''connection lost''), [rag_document\<lparr>status := pending\<rparr>],
           [rag_fragment 0 ''stale'' [0, 1]])"
  by (simp add: processDocument_def process_steps_def dropped_env_def demo_env_def
      doc_world_tables doc_fields)

text \<open>
  Claim C6 as stated fails. The one fragment is embedded and stored, then the update to
  \<open>completed\<close> is rejected: the document ends \<open>failed\<close> and the fragment written during the
  attempt is still in the store. And a failure to connect, or a connection lost before the
  failure is recorded, leaves the status \<open>pending\<close>.
\<close>

theorem processDocument_fragments_counterexample:
  "map_option (\<lambda>(w', r). (r, map status (documents w'), map emb_chunk_text (embeddings w')))
     (processDocument fail_env doc_world ''d1'')
   = Some (Inl (Error ''connection lost''), [failed], [''Hello.''])
   \<and> map_option (\<lambda>(w', r). (r, map status (documents w')))
       (processDocument offline_env doc_world ''d1'')
     = Some (Inl (Error ''connection refused''), [pending])
   \<and> map_option (\<lambda>(w', r). (r, map status (documents w')))
       (processDocument dropped_env doc_world ''d1'')
     = Some (Inl (Error ''connection lost''), [pending])"
proof (intro conjI)
  obtain w' r where p: "processDocument fail_env doc_world ''d1'' = Some (w', r)"
    using fail_run by (cases "processDocument fail_env doc_world ''d1''") auto
  with fail_run have "r = Inl (Error ''connection lost'')"
    and "documents w' = [rag_document\<lparr>status := failed, error_message := Some ''connection lost''\<rparr>]"
    and "embeddings w' = [rag_fragment 0 ''Hello.'' [1, 0]]"
    by simp_all
  with p show "map_option (\<lambda>(w', r). (r, map status (documents w'), map emb_chunk_text (embeddings w')))
     (processDocument fail_env doc_world ''d1'')
   = Some (Inl (Error ''connection lost''), [failed], [''Hello.''])"
    by (simp add: rag_fragment_def)
  obtain w1 r1 where p1: "processDocument offline_env doc_world ''d1'' = Some (w1, r1)"
    using offline_run by (cases "processDocument offline_env doc_world ''d1''") auto
  with offline_run have "r1 = Inl (Error ''connection refused'')"
    and "documents w1 = [rag_document\<lparr>status := pending\<rparr>]"
    by simp_all
  with p1 show "map_option (\<lambda>(w', r). (r, map status (documents w')))
       (processDocument offline_env doc_world ''d1'')
     = Some (Inl (Error ''connection refused''), [pending])"
    by simp
  obtain w2 r2 where p2: "processDocument dropped_env doc_world ''d1'' = Some (w2, r2)"
    using dropped_run by (cases "processDocument dropped_env doc_world ''d1''") auto
  with dropped_run have "r2 = Inl (Error ''connection lost'')"
    and "documents w2 = [rag_document\<lparr>status := pending\<rparr>]"
    by simp_all
  with p2 show "map_option (\<lambda>(w', r). (r, map status (documents w')))
       (processDocument dropped_env doc_world ''d1'')
     = Some (Inl (Error ''connection lost''), [pending])"
    by simp
qed

theorem processDocument_failure_and_replacement_witness:
  "query_error fail_env Connect = None \<and> query_error fail_env SetFailed = None
   \<and> (\<exists>w'. processDocument fail_env doc_world ''d1'' = Some (w', Inl (Error ''connection lost''))
         \<and> map doc_id (documents w') = [''d1'']
         \<and> map status (documents w') = [failed]
         \<and> map error_message (documents w') = [Some ''connection lost''])
   \<and> (\<exists>w'. processDocument demo_env doc_world ''d1'' = Some (w', Inr ())
         \<and> map status (documents w') = [completed]
         \<and> rag_fragment 0 ''stale'' [0, 1] \<notin> set (embeddings w'))"
proof (intro conjI)
  show q0: "query_error fail_env Connect = None" by (rule fail_env_fields)
  show q: "query_error fail_env SetFailed = None" by (rule fail_env_fields)
  obtain w1 r1 where p1: "processDocument fail_env doc_world ''d1'' = Some (w1, r1)"
    using fail_run by (cases "processDocument fail_env doc_world ''d1''") auto
  with fail_run have r1: "r1 = Inl (Error ''connection lost'')" by simp
  from p1 r1 q0 q have h1: "processDocument fail_env doc_world ''d1''
      = Some (w1, Inl (Error ''connection lost'')) \<and> query_error fail_env Connect = None
      \<and> query_error fail_env SetFailed = None"
    by simp
  note t1 = processDocument_failure_and_replacement
    [of fail_env doc_world "''d1''" w1 "Error ''connection lost''", THEN conjunct1, THEN mp, OF h1]
  from t1 have ids: "map doc_id (documents w1) = [''d1'']"
    by (simp add: doc_world_tables doc_fields)
  then obtain d where d: "documents w1 = [d]" and "doc_id d = ''d1''"
    by (cases "documents w1") auto
  with t1 have "status d = failed \<and> error_message d = Some ''connection lost''"
    by simp
  with d ids p1 r1
  show "\<exists>w'. processDocument fail_env doc_world ''d1'' = Some (w', Inl (Error ''connection lost''))
         \<and> map doc_id (documents w') = [''d1'']
         \<and> map status (documents w') = [failed]
         \<and> map error_message (documents w') = [Some ''connection lost'']"
    by simp
  obtain w2 r2 where p2: "processDocument demo_env doc_world ''d1'' = Some (w2, r2)"
    using success_run by (cases "processDocument demo_env doc_world ''d1''") auto
  with success_run have r2: "r2 = Inr ()" by simp
  from p2 r2 have h2: "processDocument demo_env doc_world ''d1'' = Some (w2, Inr ())"
    by simp
  from processDocument_failure_and_replacement
    [of demo_env doc_world "''d1''" w2 _ "()", THEN conjunct2, THEN mp, OF h2]
  obtain doc rest body chunks new where
    ids2: "map doc_id (documents w2) = map doc_id (documents doc_world)"
    and e: "embeddings w2
        = filter (\<lambda>r. emb_document_id r \<noteq> ''d1'') (embeddings doc_world) @ new"
    and n: "\<forall>r\<in>set new. emb_document_id r = ''d1'' \<and> emb_chunk_text r \<in> set chunks"
    and f: "filter (\<lambda>d. doc_id d = ''d1'') (documents doc_world) = doc # rest"
    and x: "extractText demo_env (file_path doc) (mime_type doc) = Inr body"
    and c: "chunkText body (CHUNK_SIZE demo_env) (CHUNK_OVERLAP demo_env) = Some chunks"
    and st: "\<forall>d\<in>set (documents w2). doc_id d = ''d1'' \<longrightarrow> status d = completed"
    by blast
  from f have "doc = rag_document\<lparr>status := pending\<rparr>"
    by (simp add: doc_world_tables doc_fields)
  with x have "body = ''Hello.''"
    by (simp add: doc_fields doc_world_extract)
  with c have chunks: "chunks = [''Hello.'']"
    by (simp add: demo_env_fields hello_chunks)
  from e have "embeddings w2 = new"
    by (simp add: doc_world_tables rag_fragment_def)
  with n chunks have stale: "rag_fragment 0 ''stale'' [0, 1] \<notin> set (embeddings w2)"
    by (auto simp: rag_fragment_def)
  from ids2 obtain d2 where d2: "documents w2 = [d2]" and "doc_id d2 = ''d1''"
    by (cases "documents w2") (auto simp: doc_world_tables doc_fields)
  with st have "status d2 = completed" by simp
  with d2 stale h2
  show "\<exists>w'. processDocument demo_env doc_world ''d1'' = Some (w', Inr ())
         \<and> map status (documents w') = [completed]
         \<and> rag_fragment 0 ''stale'' [0, 1] \<notin> set (embeddings w')"
    by simp
qed

end
